theory Spec2Isabelle
  imports Main "HOL-Library.Word"
begin

unbundle bit_operations_syntax

section \<open>Reinette II: the 6502 core and its bus\<close>

text \<open>
  A shallow embedding of \<^verbatim>\<open>reinette-II.c\<close>.  The C types are kept: \<^verbatim>\<open>uint8_t\<close> is an
  8-bit word, \<^verbatim>\<open>uint16_t\<close> a 16-bit word, and an expression that C computes in
  \<^verbatim>\<open>int\<close> (after the integer promotions) is computed on a 32-bit word and cast to the type
  of the variable it is stored in.  No intermediate value of the program leaves the range
  \<open>-2^17 .. 2^17\<close>, so the 32-bit word never wraps where the C \<^verbatim>\<open>int\<close> would not.
  Compound assignments that only mask or set bits of a byte (\<^verbatim>\<open>reg.SR |= CARRY\<close>,
  \<^verbatim>\<open>reg.SR &= ~ZERO\<close>, \<^verbatim>\<open>key &= 0x7F\<close>) and increments of a variable (\<^verbatim>\<open>reg.PC++\<close>,
  \<^verbatim>\<open>reg.SP--\<close>) are written at the width of the variable, where they wrap as the store does;
  so are the tests of a variable against a constant mask (\<^verbatim>\<open>reg.SR & CARRY\<close>,
  \<^verbatim>\<open>result & 0xFF00\<close>, \<^verbatim>\<open>address & 0x400\<close>) and the comparisons of an address with a constant.
  The operands of \<^verbatim>\<open>|\<close> are evaluated from left to right.
\<close>

type_synonym uint8_t = "8 word"
type_synonym uint16_t = "16 word"
type_synonym c_int = "32 word"

definition ROMSTART :: uint16_t where [simp]: "ROMSTART = 0xD000"
definition RAMSIZE :: uint16_t where [simp]: "RAMSIZE = 0xC000"

definition CARRY :: uint8_t where [simp]: "CARRY = 0x01"
definition ZERO :: uint8_t where [simp]: "ZERO = 0x02"
definition INTERRUPT :: uint8_t where [simp]: "INTERRUPT = 0x04"
definition DECIMAL :: uint8_t where [simp]: "DECIMAL = 0x08"
definition BREAK :: uint8_t where [simp]: "BREAK = 0x10"
definition UNDEFINED :: uint8_t where [simp]: "UNDEFINED = 0x20"
definition OVERFLOW :: uint8_t where [simp]: "OVERFLOW = 0x40"
definition SIGN :: uint8_t where [simp]: "SIGN = 0x80"

text \<open>
  The global variables of the program: the two memories (\<^verbatim>\<open>ram\<close> is indexed by the
  address, \<^verbatim>\<open>rom\<close> by the address minus \<^verbatim>\<open>ROMSTART\<close>), the operand record \<^verbatim>\<open>ope\<close>,
  the register file \<^verbatim>\<open>reg\<close>, the keyboard latch and the video flag.
\<close>

record machine =
  rom :: "uint16_t \<Rightarrow> uint8_t"
  ram :: "uint16_t \<Rightarrow> uint8_t"
  ope_setAcc :: bool
  ope_value :: uint16_t
  ope_address :: uint16_t
  reg_A :: uint8_t
  reg_X :: uint8_t
  reg_Y :: uint8_t
  reg_SR :: uint8_t
  reg_SP :: uint8_t
  reg_PC :: uint16_t
  key :: uint8_t
  videoNeedsRefresh :: bool

subsection \<open>Memory and I/O\<close>

definition readMem :: "uint16_t \<Rightarrow> machine \<Rightarrow> uint8_t \<times> machine" where
  "readMem address s =
     (if address < RAMSIZE then (ram s address, s)
      else if ROMSTART \<le> address then (rom s (address - ROMSTART), s)
      else if address = 0xC000 then (key s, s)
      else if address = 0xC010 then
        (let s = s\<lparr>key := key s AND 0x7F\<rparr> in (key s, s))
      else (0, s))"

definition writeMem :: "uint16_t \<Rightarrow> uint8_t \<Rightarrow> machine \<Rightarrow> machine" where
  "writeMem address v s =
     (let s = (if address AND 0x400 \<noteq> 0 then s\<lparr>videoNeedsRefresh := True\<rparr> else s)
      in if address < RAMSIZE then s\<lparr>ram := (ram s)(address := v)\<rparr>
         else if address = 0xC010 then s\<lparr>key := key s AND 0x7F\<rparr>
         else s)"

subsection \<open>Reset\<close>

definition reset :: "machine \<Rightarrow> machine" where
  "reset s =
     (let (lo, s) = readMem 0xFFFC s;
          (hi, s) = readMem 0xFFFD s;
          s = s\<lparr>reg_PC := ucast (ucast lo OR push_bit 8 (ucast hi :: c_int))\<rparr>;
          s = s\<lparr>reg_SP := 0xFF\<rparr>;
          s = s\<lparr>reg_SR := reg_SR s OR UNDEFINED\<rparr>;
          s = s\<lparr>ope_setAcc := False\<rparr>;
          s = s\<lparr>ope_value := 0\<rparr>
      in s\<lparr>ope_address := 0\<rparr>)"

subsection \<open>Stack, sign and zero flags\<close>

definition push :: "uint8_t \<Rightarrow> machine \<Rightarrow> machine" where
  "push v s =
     (let sp = reg_SP s;
          s = s\<lparr>reg_SP := sp - 1\<rparr>
      in writeMem (ucast (0x100 + (ucast sp :: c_int))) v s)"

definition pull :: "machine \<Rightarrow> uint8_t \<times> machine" where
  "pull s =
     (let s = s\<lparr>reg_SP := reg_SP s + 1\<rparr>
      in readMem (ucast (0x100 + (ucast (reg_SP s) :: c_int))) s)"

definition setSZ :: "uint8_t \<Rightarrow> machine \<Rightarrow> machine" where
  "setSZ v s =
     (let s = (if v \<noteq> 0 then s\<lparr>reg_SR := reg_SR s AND NOT ZERO\<rparr>
               else s\<lparr>reg_SR := reg_SR s OR ZERO\<rparr>)
      in if v AND 0x80 \<noteq> 0 then s\<lparr>reg_SR := reg_SR s OR SIGN\<rparr>
         else s\<lparr>reg_SR := reg_SR s AND NOT SIGN\<rparr>)"

subsection \<open>Addressing modes\<close>

text \<open>
  The functions the table \<^verbatim>\<open>addressing\<close> points to are the constructors of \<open>amode\<close>;
  \<open>resolve m\<close> is the body of the function \<open>m\<close>.
\<close>

datatype amode = IMP | ACC | IMM | ZPG | ZPX | ZPY | REL | ABS | ABX | ABY | IND | IDX | IDY

primrec resolve :: "amode \<Rightarrow> machine \<Rightarrow> machine" where
  "resolve IMP s = s"
| "resolve ACC s =
     (let s = s\<lparr>ope_value := ucast (reg_A s)\<rparr>
      in s\<lparr>ope_setAcc := True\<rparr>)"
| "resolve IMM s =
     (let pc = reg_PC s;
          s = s\<lparr>reg_PC := pc + 1\<rparr>;
          s = s\<lparr>ope_address := pc\<rparr>;
          (v, s) = readMem (ope_address s) s
      in s\<lparr>ope_value := ucast v\<rparr>)"
| "resolve ZPG s =
     (let pc = reg_PC s;
          s = s\<lparr>reg_PC := pc + 1\<rparr>;
          (b, s) = readMem pc s;
          s = s\<lparr>ope_address := ucast b\<rparr>;
          (v, s) = readMem (ope_address s) s
      in s\<lparr>ope_value := ucast v\<rparr>)"
| "resolve ZPX s =
     (let pc = reg_PC s;
          s = s\<lparr>reg_PC := pc + 1\<rparr>;
          (b, s) = readMem pc s;
          s = s\<lparr>ope_address := ucast ((ucast b + ucast (reg_X s) :: c_int) AND 0xFF)\<rparr>;
          (v, s) = readMem (ope_address s) s
      in s\<lparr>ope_value := ucast v\<rparr>)"
| "resolve ZPY s =
     (let pc = reg_PC s;
          s = s\<lparr>reg_PC := pc + 1\<rparr>;
          (b, s) = readMem pc s;
          s = s\<lparr>ope_address := ucast ((ucast b + ucast (reg_Y s) :: c_int) AND 0xFF)\<rparr>;
          (v, s) = readMem (ope_address s) s
      in s\<lparr>ope_value := ucast v\<rparr>)"
| "resolve REL s =
     (let pc = reg_PC s;
          s = s\<lparr>reg_PC := pc + 1\<rparr>;
          (b, s) = readMem pc s;
          s = s\<lparr>ope_address := ucast b\<rparr>
      in if ope_address s AND 0x80 \<noteq> 0 then s\<lparr>ope_address := ope_address s OR 0xFF00\<rparr>
         else s)"
| "resolve ABS s =
     (let (lo, s) = readMem (reg_PC s) s;
          (hi, s) = readMem (ucast (ucast (reg_PC s) + 1 :: c_int)) s;
          s = s\<lparr>ope_address := ucast (ucast lo OR push_bit 8 (ucast hi :: c_int))\<rparr>;
          (v, s) = readMem (ope_address s) s;
          s = s\<lparr>ope_value := ucast v\<rparr>
      in s\<lparr>reg_PC := reg_PC s + 2\<rparr>)"
| "resolve ABX s =
     (let (lo, s) = readMem (reg_PC s) s;
          (hi, s) = readMem (ucast (ucast (reg_PC s) + 1 :: c_int)) s;
          s = s\<lparr>ope_address :=
                 ucast ((ucast lo OR push_bit 8 (ucast hi :: c_int)) + ucast (reg_X s))\<rparr>;
          (v, s) = readMem (ope_address s) s;
          s = s\<lparr>ope_value := ucast v\<rparr>
      in s\<lparr>reg_PC := reg_PC s + 2\<rparr>)"
| "resolve ABY s =
     (let (lo, s) = readMem (reg_PC s) s;
          (hi, s) = readMem (ucast (ucast (reg_PC s) + 1 :: c_int)) s;
          s = s\<lparr>ope_address :=
                 ucast ((ucast lo OR push_bit 8 (ucast hi :: c_int)) + ucast (reg_Y s))\<rparr>;
          (v, s) = readMem (ope_address s) s;
          s = s\<lparr>ope_value := ucast v\<rparr>
      in s\<lparr>reg_PC := reg_PC s + 2\<rparr>)"
| "resolve IND s =
     (let (lo, s) = readMem (reg_PC s) s;
          (hi, s) = readMem (ucast (ucast (reg_PC s) + 1 :: c_int)) s;
          vector1 = (ucast (ucast lo OR push_bit 8 (ucast hi :: c_int)) :: uint16_t);
          vector2 = (ucast (((ucast vector1 :: c_int) AND 0xFF00)
                             OR ((ucast vector1 + 1) AND 0x00FF)) :: uint16_t);
          (lo, s) = readMem vector1 s;
          (hi, s) = readMem vector2 s;
          s = s\<lparr>ope_address := ucast (ucast lo OR push_bit 8 (ucast hi :: c_int))\<rparr>;
          (v, s) = readMem (ope_address s) s;
          s = s\<lparr>ope_value := ucast v\<rparr>
      in s\<lparr>reg_PC := reg_PC s + 2\<rparr>)"
| "resolve IDX s =
     (let pc = reg_PC s;
          s = s\<lparr>reg_PC := pc + 1\<rparr>;
          (b, s) = readMem pc s;
          vector1 = (ucast ((ucast b + ucast (reg_X s) :: c_int) AND 0xFF) :: uint16_t);
          (lo, s) = readMem (ucast ((ucast vector1 :: c_int) AND 0x00FF)) s;
          (hi, s) = readMem (ucast (((ucast vector1 :: c_int) + 1) AND 0x00FF)) s;
          s = s\<lparr>ope_address := ucast (ucast lo OR push_bit 8 (ucast hi :: c_int))\<rparr>;
          (v, s) = readMem (ope_address s) s
      in s\<lparr>ope_value := ucast v\<rparr>)"
| "resolve IDY s =
     (let pc = reg_PC s;
          s = s\<lparr>reg_PC := pc + 1\<rparr>;
          (b, s) = readMem pc s;
          vector1 = (ucast b :: uint16_t);
          vector2 = (ucast (((ucast vector1 :: c_int) AND 0xFF00)
                             OR ((ucast vector1 + 1) AND 0x00FF)) :: uint16_t);
          (lo, s) = readMem vector1 s;
          (hi, s) = readMem vector2 s;
          s = s\<lparr>ope_address :=
                 ucast ((ucast lo OR push_bit 8 (ucast hi :: c_int)) + ucast (reg_Y s))\<rparr>;
          (v, s) = readMem (ope_address s) s
      in s\<lparr>ope_value := ucast v\<rparr>)"

subsection \<open>Instructions\<close>

text \<open>
  The functions the table \<^verbatim>\<open>instruction\<close> points to are the constructors of \<open>instr\<close>
  (\<^verbatim>\<open>AND\<close> is written \<open>AND'\<close>); \<open>exec i\<close> is the body of the function \<open>i\<close>.
\<close>

datatype instr =
    NOP | BRK | CLD | SED | CLC | SEC | CLI | SEI | CLV
  | LDA | LDX | LDY | STA | STX | STY
  | DEC | DEX | DEY | INC | INX | INY
  | TAX | TAY | TXA | TYA | TSX | TXS
  | BEQ | BNE | BMI | BPL | BVS | BVC | BCS | BCC
  | PHA | PLA | PHP | PLP | JMP | JSR | RTS | RTI
  | CMP | CPX | CPY | AND' | ORA | EOR | BIT
  | ASL | LSR | ROL | ROR | ADC | SBC | UND

definition makeUpdates :: "uint8_t \<Rightarrow> machine \<Rightarrow> machine" where
  "makeUpdates val s =
     (let s = (if ope_setAcc s then (let s = s\<lparr>reg_A := val\<rparr> in s\<lparr>ope_setAcc := False\<rparr>)
               else writeMem (ope_address s) val s)
      in setSZ val s)"

primrec exec :: "instr \<Rightarrow> machine \<Rightarrow> machine" where
  "exec NOP s = s"
| "exec BRK s =
     (let s = s\<lparr>reg_PC := reg_PC s + 1\<rparr>;
          s = push (ucast (drop_bit 8 (ucast (reg_PC s) :: c_int) AND 0xFF)) s;
          s = push (ucast ((ucast (reg_PC s) :: c_int) AND 0xFF)) s;
          s = push (reg_SR s OR BREAK) s;
          s = s\<lparr>reg_SR := reg_SR s OR INTERRUPT\<rparr>;
          (lo, s) = readMem 0xFFFE s;
          (hi, s) = readMem 0xFFFF s
      in s\<lparr>reg_PC := ucast (ucast lo OR push_bit 8 (ucast hi :: c_int))\<rparr>)"
| "exec CLD s = s\<lparr>reg_SR := reg_SR s AND NOT DECIMAL\<rparr>"
| "exec SED s = s\<lparr>reg_SR := reg_SR s OR DECIMAL\<rparr>"
| "exec CLC s = s\<lparr>reg_SR := reg_SR s AND NOT CARRY\<rparr>"
| "exec SEC s = s\<lparr>reg_SR := reg_SR s OR CARRY\<rparr>"
| "exec CLI s = s\<lparr>reg_SR := reg_SR s AND NOT INTERRUPT\<rparr>"
| "exec SEI s = s\<lparr>reg_SR := reg_SR s OR INTERRUPT\<rparr>"
| "exec CLV s = s\<lparr>reg_SR := reg_SR s AND NOT OVERFLOW\<rparr>"
| "exec LDA s = (let s = s\<lparr>reg_A := ucast (ope_value s)\<rparr> in setSZ (reg_A s) s)"
| "exec LDX s = (let s = s\<lparr>reg_X := ucast (ope_value s)\<rparr> in setSZ (reg_X s) s)"
| "exec LDY s = (let s = s\<lparr>reg_Y := ucast (ope_value s)\<rparr> in setSZ (reg_Y s) s)"
| "exec STA s = writeMem (ope_address s) (reg_A s) s"
| "exec STX s = writeMem (ope_address s) (reg_X s) s"
| "exec STY s = writeMem (ope_address s) (reg_Y s) s"
| "exec DEC s =
     (let s = s\<lparr>ope_value := ope_value s - 1\<rparr>;
          s = writeMem (ope_address s) (ucast (ope_value s)) s
      in setSZ (ucast (ope_value s)) s)"
| "exec DEX s = (let s = s\<lparr>reg_X := reg_X s - 1\<rparr> in setSZ (reg_X s) s)"
| "exec DEY s = (let s = s\<lparr>reg_Y := reg_Y s - 1\<rparr> in setSZ (reg_Y s) s)"
| "exec INC s =
     (let s = s\<lparr>ope_value := ope_value s + 1\<rparr>;
          s = writeMem (ope_address s) (ucast (ope_value s)) s
      in setSZ (ucast (ope_value s)) s)"
| "exec INX s = (let s = s\<lparr>reg_X := reg_X s + 1\<rparr> in setSZ (reg_X s) s)"
| "exec INY s = (let s = s\<lparr>reg_Y := reg_Y s + 1\<rparr> in setSZ (reg_Y s) s)"
| "exec TAX s = (let s = s\<lparr>reg_X := reg_A s\<rparr> in setSZ (reg_X s) s)"
| "exec TAY s = (let s = s\<lparr>reg_Y := reg_A s\<rparr> in setSZ (reg_Y s) s)"
| "exec TXA s = (let s = s\<lparr>reg_A := reg_X s\<rparr> in setSZ (reg_A s) s)"
| "exec TYA s = (let s = s\<lparr>reg_A := reg_Y s\<rparr> in setSZ (reg_A s) s)"
| "exec TSX s = (let s = s\<lparr>reg_X := reg_SP s\<rparr> in setSZ (reg_X s) s)"
| "exec TXS s = s\<lparr>reg_SP := reg_X s\<rparr>"
| "exec BEQ s =
     (if reg_SR s AND ZERO \<noteq> 0 then s\<lparr>reg_PC := reg_PC s + ope_address s\<rparr> else s)"
| "exec BNE s =
     (if \<not> (reg_SR s AND ZERO \<noteq> 0) then s\<lparr>reg_PC := reg_PC s + ope_address s\<rparr> else s)"
| "exec BMI s =
     (if reg_SR s AND SIGN \<noteq> 0 then s\<lparr>reg_PC := reg_PC s + ope_address s\<rparr> else s)"
| "exec BPL s =
     (if \<not> (reg_SR s AND SIGN \<noteq> 0) then s\<lparr>reg_PC := reg_PC s + ope_address s\<rparr> else s)"
| "exec BVS s =
     (if reg_SR s AND OVERFLOW \<noteq> 0 then s\<lparr>reg_PC := reg_PC s + ope_address s\<rparr> else s)"
| "exec BVC s =
     (if \<not> (reg_SR s AND OVERFLOW \<noteq> 0) then s\<lparr>reg_PC := reg_PC s + ope_address s\<rparr>
      else s)"
| "exec BCS s =
     (if reg_SR s AND CARRY \<noteq> 0 then s\<lparr>reg_PC := reg_PC s + ope_address s\<rparr> else s)"
| "exec BCC s =
     (if \<not> (reg_SR s AND CARRY \<noteq> 0) then s\<lparr>reg_PC := reg_PC s + ope_address s\<rparr> else s)"
| "exec PHA s = push (reg_A s) s"
| "exec PLA s =
     (let (v, s) = pull s;
          s = s\<lparr>reg_A := v\<rparr>
      in setSZ (reg_A s) s)"
| "exec PHP s = push (reg_SR s OR BREAK) s"
| "exec PLP s = (let (v, s) = pull s in s\<lparr>reg_SR := v OR UNDEFINED\<rparr>)"
| "exec JMP s = s\<lparr>reg_PC := ope_address s\<rparr>"
| "exec JSR s =
     (let s = s\<lparr>reg_PC := reg_PC s - 1\<rparr>;
          s = push (ucast (drop_bit 8 (ucast (reg_PC s) :: c_int) AND 0xFF)) s;
          s = push (ucast ((ucast (reg_PC s) :: c_int) AND 0xFF)) s
      in s\<lparr>reg_PC := ope_address s\<rparr>)"
| "exec RTS s =
     (let (lo, s) = pull s;
          (hi, s) = pull s
      in s\<lparr>reg_PC := ucast ((ucast lo OR push_bit 8 (ucast hi :: c_int)) + 1)\<rparr>)"
| "exec RTI s =
     (let (v, s) = pull s;
          s = s\<lparr>reg_SR := v\<rparr>;
          (lo, s) = pull s;
          (hi, s) = pull s
      in s\<lparr>reg_PC := ucast (ucast lo OR push_bit 8 (ucast hi :: c_int))\<rparr>)"
| "exec CMP s =
     (let s = setSZ (ucast (ucast (reg_A s) - ucast (ope_value s) :: c_int)) s
      in if (ucast (ope_value s) :: c_int) \<le> ucast (reg_A s)
         then s\<lparr>reg_SR := reg_SR s OR CARRY\<rparr>
         else s\<lparr>reg_SR := reg_SR s AND NOT CARRY\<rparr>)"
| "exec CPX s =
     (let s = setSZ (ucast (ucast (reg_X s) - ucast (ope_value s) :: c_int)) s
      in if (ucast (ope_value s) :: c_int) \<le> ucast (reg_X s)
         then s\<lparr>reg_SR := reg_SR s OR CARRY\<rparr>
         else s\<lparr>reg_SR := reg_SR s AND NOT CARRY\<rparr>)"
| "exec CPY s =
     (let s = setSZ (ucast (ucast (reg_Y s) - ucast (ope_value s) :: c_int)) s
      in if (ucast (ope_value s) :: c_int) \<le> ucast (reg_Y s)
         then s\<lparr>reg_SR := reg_SR s OR CARRY\<rparr>
         else s\<lparr>reg_SR := reg_SR s AND NOT CARRY\<rparr>)"
| "exec AND' s =
     (let s = s\<lparr>reg_A := ucast ((ucast (reg_A s) :: c_int) AND ucast (ope_value s))\<rparr>
      in setSZ (reg_A s) s)"
| "exec ORA s =
     (let s = s\<lparr>reg_A := ucast ((ucast (reg_A s) :: c_int) OR ucast (ope_value s))\<rparr>
      in setSZ (reg_A s) s)"
| "exec EOR s =
     (let s = s\<lparr>reg_A := ucast ((ucast (reg_A s) :: c_int) XOR ucast (ope_value s))\<rparr>
      in setSZ (reg_A s) s)"
| "exec BIT s =
     (let s = (if (ucast (reg_A s) :: c_int) AND ucast (ope_value s) \<noteq> 0
               then s\<lparr>reg_SR := reg_SR s AND NOT ZERO\<rparr>
               else s\<lparr>reg_SR := reg_SR s OR ZERO\<rparr>)
      in s\<lparr>reg_SR := ucast (((ucast (reg_SR s) :: c_int) AND 0x3F)
                              OR (ucast (ope_value s) AND 0xC0))\<rparr>)"
| "exec ASL s =
     (let result = (ucast (push_bit 1 (ucast (ope_value s) :: c_int)) :: uint16_t);
          s = (if result AND 0xFF00 \<noteq> 0 then s\<lparr>reg_SR := reg_SR s OR CARRY\<rparr>
               else s\<lparr>reg_SR := reg_SR s AND NOT CARRY\<rparr>)
      in makeUpdates (ucast (result AND 0xFF)) s)"
| "exec LSR s =
     (let s = (if ope_value s AND 1 \<noteq> 0 then s\<lparr>reg_SR := reg_SR s OR CARRY\<rparr>
               else s\<lparr>reg_SR := reg_SR s AND NOT CARRY\<rparr>)
      in makeUpdates (ucast (drop_bit 1 (ucast (ope_value s) :: c_int) AND 0xFF)) s)"
| "exec ROL s =
     (let result = (ucast (push_bit 1 (ucast (ope_value s) :: c_int)
                           OR ucast (reg_SR s AND CARRY)) :: uint16_t);
          s = (if result AND 0x100 \<noteq> 0 then s\<lparr>reg_SR := reg_SR s OR CARRY\<rparr>
               else s\<lparr>reg_SR := reg_SR s AND NOT CARRY\<rparr>)
      in makeUpdates (ucast (result AND 0xFF)) s)"
| "exec ROR s =
     (let result = (ucast (drop_bit 1 (ucast (ope_value s) :: c_int)
                           OR push_bit 7 (ucast (reg_SR s AND CARRY))) :: uint16_t);
          s = (if ope_value s AND 0x1 \<noteq> 0 then s\<lparr>reg_SR := reg_SR s OR CARRY\<rparr>
               else s\<lparr>reg_SR := reg_SR s AND NOT CARRY\<rparr>)
      in makeUpdates (ucast (result AND 0xFF)) s)"
| "exec ADC s =
     (let result = (ucast ((ucast (reg_A s) :: c_int) + ucast (ope_value s)
                           + ucast (reg_SR s AND CARRY)) :: uint16_t);
          s = setSZ (ucast result) s;
          s = (if ((ucast result :: c_int) XOR ucast (reg_A s))
                    AND (ucast result XOR ucast (ope_value s)) AND 0x0080 \<noteq> 0
               then s\<lparr>reg_SR := reg_SR s OR OVERFLOW\<rparr>
               else s\<lparr>reg_SR := reg_SR s AND NOT OVERFLOW\<rparr>);
          result = (if reg_SR s AND DECIMAL \<noteq> 0
                    then ucast ((ucast result :: c_int)
                           + (drop_bit 3 (((ucast result :: c_int) + 0x66)
                                 XOR ucast (reg_A s) XOR ucast (ope_value s)) AND 0x22) * 3)
                    else result);
          s = (if result AND 0xFF00 \<noteq> 0 then s\<lparr>reg_SR := reg_SR s OR CARRY\<rparr>
               else s\<lparr>reg_SR := reg_SR s AND NOT CARRY\<rparr>)
      in s\<lparr>reg_A := ucast (result AND 0xFF)\<rparr>)"
| "exec SBC s =
     (let s = s\<lparr>ope_value := ope_value s XOR 0xFF\<rparr>;
          s = (if reg_SR s AND DECIMAL \<noteq> 0 then s\<lparr>ope_value := ope_value s - 0x0066\<rparr>
               else s);
          result = (ucast ((ucast (reg_A s) :: c_int) + ucast (ope_value s)
                           + ucast (reg_SR s AND CARRY)) :: uint16_t);
          s = setSZ (ucast result) s;
          s = (if ((ucast result :: c_int) XOR ucast (reg_A s))
                    AND (ucast result XOR ucast (ope_value s)) AND 0x0080 \<noteq> 0
               then s\<lparr>reg_SR := reg_SR s OR OVERFLOW\<rparr>
               else s\<lparr>reg_SR := reg_SR s AND NOT OVERFLOW\<rparr>);
          result = (if reg_SR s AND DECIMAL \<noteq> 0
                    then ucast ((ucast result :: c_int)
                           + (drop_bit 3 (((ucast result :: c_int) + 0x66)
                                 XOR ucast (reg_A s) XOR ucast (ope_value s)) AND 0x22) * 3)
                    else result);
          s = (if result AND 0xFF00 \<noteq> 0 then s\<lparr>reg_SR := reg_SR s OR CARRY\<rparr>
               else s\<lparr>reg_SR := reg_SR s AND NOT CARRY\<rparr>)
      in s\<lparr>reg_A := ucast (result AND 0xFF)\<rparr>)"
| "exec UND s = s"

subsection \<open>Jump tables and the fetch/decode/execute step\<close>

definition instruction :: "instr list" where
  "instruction =
    [BRK, ORA, UND, UND, UND, ORA, ASL, UND, PHP, ORA, ASL, UND, UND, ORA, ASL, UND,
     BPL, ORA, UND, UND, UND, ORA, ASL, UND, CLC, ORA, UND, UND, UND, ORA, ASL, UND,
     JSR, AND', UND, UND, BIT, AND', ROL, UND, PLP, AND', ROL, UND, BIT, AND', ROL, UND,
     BMI, AND', UND, UND, UND, AND', ROL, UND, SEC, AND', UND, UND, UND, AND', ROL, UND,
     RTI, EOR, UND, UND, UND, EOR, LSR, UND, PHA, EOR, LSR, UND, JMP, EOR, LSR, UND,
     BVC, EOR, UND, UND, UND, EOR, LSR, UND, CLI, EOR, UND, UND, UND, EOR, LSR, UND,
     RTS, ADC, UND, UND, UND, ADC, ROR, UND, PLA, ADC, ROR, UND, JMP, ADC, ROR, UND,
     BVS, ADC, UND, UND, UND, ADC, ROR, UND, SEI, ADC, UND, UND, UND, ADC, ROR, UND,
     UND, STA, UND, UND, STY, STA, STX, UND, DEY, UND, TXA, UND, STY, STA, STX, UND,
     BCC, STA, UND, UND, STY, STA, STX, UND, TYA, STA, TXS, UND, UND, STA, UND, UND,
     LDY, LDA, LDX, UND, LDY, LDA, LDX, UND, TAY, LDA, TAX, UND, LDY, LDA, LDX, UND,
     BCS, LDA, UND, UND, LDY, LDA, LDX, UND, CLV, LDA, TSX, UND, LDY, LDA, LDX, UND,
     CPY, CMP, UND, UND, CPY, CMP, DEC, UND, INY, CMP, DEX, UND, CPY, CMP, DEC, UND,
     BNE, CMP, UND, UND, UND, CMP, DEC, UND, CLD, CMP, UND, UND, UND, CMP, DEC, UND,
     CPX, SBC, UND, UND, CPX, SBC, INC, UND, INX, SBC, NOP, UND, CPX, SBC, INC, UND,
     BEQ, SBC, UND, UND, UND, SBC, INC, UND, SED, SBC, UND, UND, UND, SBC, INC, UND]"

definition addressing :: "amode list" where
  "addressing =
    [IMP, IDX, IMP, IMP, IMP, ZPG, ZPG, IMP, IMP, IMM, ACC, IMP, IMP, ABS, ABS, IMP,
     REL, IDY, IMP, IMP, IMP, ZPX, ZPX, IMP, IMP, ABY, IMP, IMP, IMP, ABX, ABX, IMP,
     ABS, IDX, IMP, IMP, ZPG, ZPG, ZPG, IMP, IMP, IMM, ACC, IMP, ABS, ABS, ABS, IMP,
     REL, IDY, IMP, IMP, IMP, ZPX, ZPX, IMP, IMP, ABY, IMP, IMP, IMP, ABX, ABX, IMP,
     IMP, IDX, IMP, IMP, IMP, ZPG, ZPG, IMP, IMP, IMM, ACC, IMP, ABS, ABS, ABS, IMP,
     REL, IDY, IMP, IMP, IMP, ZPX, ZPX, IMP, IMP, ABY, IMP, IMP, IMP, ABX, ABX, IMP,
     IMP, IDX, IMP, IMP, IMP, ZPG, ZPG, IMP, IMP, IMM, ACC, IMP, IND, ABS, ABS, IMP,
     REL, IDY, IMP, IMP, IMP, ZPX, ZPX, IMP, IMP, ABY, IMP, IMP, IMP, ABX, ABX, IMP,
     IMP, IDX, IMP, IMP, ZPG, ZPG, ZPG, IMP, IMP, IMP, IMP, IMP, ABS, ABS, ABS, IMP,
     REL, IDY, IMP, IMP, ZPX, ZPX, ZPY, IMP, IMP, ABY, IMP, IMP, IMP, ABX, IMP, IMP,
     IMM, IDX, IMM, IMP, ZPG, ZPG, ZPG, IMP, IMP, IMM, IMP, IMP, ABS, ABS, ABS, IMP,
     REL, IDY, IMP, IMP, ZPX, ZPX, ZPY, IMP, IMP, ABY, IMP, IMP, ABX, ABX, ABY, IMP,
     IMM, IDX, IMP, IMP, ZPG, ZPG, ZPG, IMP, IMP, IMM, IMP, IMP, ABS, ABS, ABS, IMP,
     REL, IDY, IMP, IMP, IMP, ZPX, ZPX, IMP, IMP, ABY, IMP, IMP, IMP, ABX, ABX, IMP,
     IMM, IDX, IMP, IMP, ZPG, ZPG, ZPG, IMP, IMP, IMM, IMP, IMP, ABS, ABS, ABS, IMP,
     REL, IDY, IMP, IMP, IMP, ZPX, ZPX, IMP, IMP, ABY, IMP, IMP, IMP, ABX, ABX, IMP]"

text \<open>One iteration of the inner loop of \<^verbatim>\<open>main\<close>: fetch, decode, execute.\<close>

definition step :: "machine \<Rightarrow> machine" where
  "step s =
     (let pc = reg_PC s;
          s = s\<lparr>reg_PC := pc + 1\<rparr>;
          (opcode, s) = readMem pc s;
          s = resolve (addressing ! unat opcode) s
      in exec (instruction ! unat opcode) s)"

subsection \<open>The machine at program start\<close>

text \<open>
  The initial values of the global variables: everything is zero, except
  \<^verbatim>\<open>videoNeedsRefresh\<close>, which is initialised to \<^verbatim>\<open>true\<close>.
\<close>

definition power_on :: machine where
  "power_on = \<lparr>rom = (\<lambda>_. 0), ram = (\<lambda>_. 0), ope_setAcc = False, ope_value = 0,
      ope_address = 0, reg_A = 0, reg_X = 0, reg_Y = 0, reg_SR = 0, reg_SP = 0, reg_PC = 0,
      key = 0, videoNeedsRefresh = True\<rparr>"

section \<open>Specification-side definitions\<close>

text \<open>\<open>flag_set m b sr\<close> is the status byte \<open>sr\<close> with the flag of mask \<open>m\<close> made equal to \<open>b\<close>.\<close>

definition flag_set :: "uint8_t \<Rightarrow> bool \<Rightarrow> uint8_t \<Rightarrow> uint8_t" where
  "flag_set m b sr = (if b then sr OR m else sr AND NOT m)"

text \<open>
  ADC as the specification words it, on 16-bit values throughout: the sum \<open>r\<close>, N and Z
  from its low byte, V from the sign bits, the decimal adjustment, C from the high byte,
  and the low byte stored into A.
\<close>

definition ADC_spec :: "machine \<Rightarrow> machine" where
  "ADC_spec s =
     (let a = reg_A s; v = ope_value s;
          r = (ucast a + v + ucast (reg_SR s AND CARRY) :: uint16_t);
          lo = (ucast r :: uint8_t);
          sr = flag_set ZERO (lo = 0) (reg_SR s);
          sr = flag_set SIGN (bit lo 7) sr;
          sr = flag_set OVERFLOW ((r XOR ucast a) AND (r XOR v) AND 0x80 \<noteq> 0) sr;
          r = (if reg_SR s AND DECIMAL \<noteq> 0
               then r + (drop_bit 3 ((r + 0x66) XOR ucast a XOR v) AND 0x22) * 3 else r);
          sr = flag_set CARRY (r AND 0xFF00 \<noteq> 0) sr
      in s\<lparr>reg_SR := sr, reg_A := ucast (r AND 0xFF)\<rparr>)"

section \<open>Auxiliary definitions for the statements\<close>

text \<open>The address of the stack slot \<open>sp\<close>, in page one.\<close>

definition stack_addr :: "uint8_t \<Rightarrow> uint16_t" where
  "stack_addr sp = 0x100 + ucast sp"

text \<open>The 16-bit value with low byte \<open>lo\<close> and high byte \<open>hi\<close> (little-endian pair).\<close>

definition word16 :: "uint8_t \<Rightarrow> uint8_t \<Rightarrow> uint16_t" where
  "word16 lo hi = ucast lo OR push_bit 8 (ucast hi)"

text \<open>
  The opcode bytes of the documented instructions of the 6502, 151 in all, as numbers.
  One line per group, in this order: ADC; AND; ASL; the branches BCC, BCS, BEQ, BMI, BNE,
  BPL, BVC, BVS; BIT; BRK; CLC, CLD, CLI, CLV; CMP; CPX; CPY; DEC; DEX, DEY; EOR; INC;
  INX, INY; JMP; JSR; LDA; LDX; LDY; LSR; NOP; ORA; PHA, PHP, PLA, PLP; ROL; ROR;
  RTI, RTS; SBC; SEC, SED, SEI; STA; STX; STY; TAX, TAY, TSX, TXA, TXS, TYA.
\<close>

definition documented_opcodes :: "nat list" where
  "documented_opcodes =
    [
     0x69, 0x65, 0x75, 0x6D, 0x7D, 0x79, 0x61, 0x71,
     0x29, 0x25, 0x35, 0x2D, 0x3D, 0x39, 0x21, 0x31,
     0x0A, 0x06, 0x16, 0x0E, 0x1E,
     0x90, 0xB0, 0xF0, 0x30, 0xD0, 0x10, 0x50, 0x70,
     0x24, 0x2C,
     0x00,
     0x18, 0xD8, 0x58, 0xB8,
     0xC9, 0xC5, 0xD5, 0xCD, 0xDD, 0xD9, 0xC1, 0xD1,
     0xE0, 0xE4, 0xEC,
     0xC0, 0xC4, 0xCC,
     0xC6, 0xD6, 0xCE, 0xDE,
     0xCA, 0x88,
     0x49, 0x45, 0x55, 0x4D, 0x5D, 0x59, 0x41, 0x51,
     0xE6, 0xF6, 0xEE, 0xFE,
     0xE8, 0xC8,
     0x4C, 0x6C,
     0x20,
     0xA9, 0xA5, 0xB5, 0xAD, 0xBD, 0xB9, 0xA1, 0xB1,
     0xA2, 0xA6, 0xB6, 0xAE, 0xBE,
     0xA0, 0xA4, 0xB4, 0xAC, 0xBC,
     0x4A, 0x46, 0x56, 0x4E, 0x5E,
     0xEA,
     0x09, 0x05, 0x15, 0x0D, 0x1D, 0x19, 0x01, 0x11,
     0x48, 0x08, 0x68, 0x28,
     0x2A, 0x26, 0x36, 0x2E, 0x3E,
     0x6A, 0x66, 0x76, 0x6E, 0x7E,
     0x40, 0x60,
     0xE9, 0xE5, 0xF5, 0xED, 0xFD, 0xF9, 0xE1, 0xF1,
     0x38, 0xF8, 0x78,
     0x85, 0x95, 0x8D, 0x9D, 0x99, 0x81, 0x91,
     0x86, 0x96, 0x8E,
     0x84, 0x94, 0x8C,
     0xAA, 0xA8, 0xBA, 0x8A, 0x9A, 0x98
    ]"

definition documented :: "uint8_t \<Rightarrow> bool" where
  "documented op = (unat op \<in> set documented_opcodes)"

subsection \<open>The host loop\<close>

text \<open>
  The keyboard controller and the video controller of \<^verbatim>\<open>main\<close>, as far as they change
  the machine: \<open>keyboard KEY_F7 ch\<close> is the body of \<^verbatim>\<open>if ((ch = getch()) != ERR)\<close> for a
  key \<open>ch\<close> other than F12 (which ends the program), where \<open>KEY_F7\<close> stands for the value of
  the curses macro \<^verbatim>\<open>KEY_F(7)\<close>; \<open>video\<close> clears the flag after a redraw.  A run of the
  main loop after \<^verbatim>\<open>reset\<close> is a list of events; \<^verbatim>\<open>main\<close> produces the lists in which
  a hundred steps are followed by at most one key and one refresh.
\<close>

definition keyboard :: "c_int \<Rightarrow> c_int \<Rightarrow> machine \<Rightarrow> machine" where
  "keyboard KEY_F7 ch s =
     (let s = (if ch = KEY_F7 then reset s else s);
          s = s\<lparr>key := ucast ch\<rparr>;
          s = (if key s = 0x0A then s\<lparr>key := 0x0D\<rparr>
               else if key s = 0x04 then s\<lparr>key := 0x08\<rparr>
               else if key s = 0x05 then s\<lparr>key := 0x15\<rparr>
               else if key s = 0x07 then s\<lparr>key := 0x08\<rparr>
               else s);
          s = (if 0x60 < key s \<and> key s < 0x7B then s\<lparr>key := key s AND 0xDF\<rparr> else s)
      in s\<lparr>key := key s OR 0x80\<rparr>)"

definition video :: "machine \<Rightarrow> machine" where
  "video s = (if videoNeedsRefresh s then s\<lparr>videoNeedsRefresh := False\<rparr> else s)"

datatype event = Step | Input c_int | Refresh

fun run :: "c_int \<Rightarrow> event list \<Rightarrow> machine \<Rightarrow> machine" where
  "run KEY_F7 [] s = s"
| "run KEY_F7 (Step # es) s = run KEY_F7 es (step s)"
| "run KEY_F7 (Input ch # es) s = run KEY_F7 es (keyboard KEY_F7 ch s)"
| "run KEY_F7 (Refresh # es) s = run KEY_F7 es (video s)"

text \<open>A small program for the examples: \<^verbatim>\<open>ASL $10\<close> at address 0, with \<open>0x81\<close> at \<open>$10\<close>.\<close>

definition shift_demo :: machine where
  "shift_demo = power_on\<lparr>ram := (\<lambda>_. 0)(0 := 0x06, 1 := 0x10, 0x10 := 0x81), reg_A := 0x55\<rparr>"

subsection \<open>Programs in memory\<close>

text \<open>
  \<open>io_window a\<close>: the address lies between the RAM and the ROM.  \<open>cell s a\<close>: the byte
  stored at a RAM or ROM address.  \<open>program_at s a bs\<close>: the bytes \<open>bs\<close> are stored at the
  addresses \<open>a\<close>, \<open>a + 1\<close>, ... (wrapping at 16 bits as PC does), all of them outside the I/O
  window, so that fetching them has no side effect.
\<close>

definition io_window :: "uint16_t \<Rightarrow> bool" where
  "io_window a = (RAMSIZE \<le> a \<and> a < ROMSTART)"

definition cell :: "machine \<Rightarrow> uint16_t \<Rightarrow> uint8_t" where
  "cell s a = (if a < RAMSIZE then ram s a else rom s (a - ROMSTART))"

fun program_at :: "machine \<Rightarrow> uint16_t \<Rightarrow> uint8_t list \<Rightarrow> bool" where
  "program_at s a [] = True"
| "program_at s a (b # bs) = (\<not> io_window a \<and> cell s a = b \<and> program_at s (a + 1) bs)"

text \<open>Programs for the examples: an indirect jump, a subroutine call, keyboard reads.\<close>

definition jmp_demo :: machine where
  "jmp_demo = power_on\<lparr>ram := (\<lambda>_. 0)(0x0200 := 0x6C, 0x0201 := 0xFF, 0x0202 := 0x30,
                                          0x30FF := 0x80, 0x3000 := 0x50, 0x3100 := 0x60),
                         reg_PC := 0x0200\<rparr>"

definition jsr_demo :: machine where
  "jsr_demo = power_on\<lparr>ram := (\<lambda>_. 0)(0x0200 := 0x20, 0x0201 := 0x10, 0x0202 := 0x03,
                                          0x0310 := 0x60),
                         reg_SP := 0xFF, reg_PC := 0x0200\<rparr>"

definition kbd_demo :: machine where
  "kbd_demo = power_on\<lparr>ram := (\<lambda>_. 0)(0x0300 := 0xAD, 0x0301 := 0x00, 0x0302 := 0xC0,
                                          0x0303 := 0xAD, 0x0304 := 0x10, 0x0305 := 0xC0,
                                          0x0306 := 0xAD, 0x0307 := 0x00, 0x0308 := 0xC0),
                         reg_PC := 0x0300, key := 0xC1\<rparr>"

section \<open>Casts between the C integer types\<close>

lemma ucast_down_add: "(ucast (a + b :: c_int) :: uint16_t) = ucast a + ucast b"
  apply transfer
  subgoal for a b
    using take_bit_add[of 16 "take_bit 32 a" "take_bit 32 b"] take_bit_add[of 16 a b]
    by (simp add: min_def)
  done

lemma ucast_down_mult: "(ucast (a * b :: c_int) :: uint16_t) = ucast a * ucast b"
  apply transfer
  subgoal for a b
    using take_bit_mult[of 16 "take_bit 32 a" "take_bit 32 b"] take_bit_mult[of 16 a b]
    by (simp add: min_def)
  done

lemma ucast_down_xor: "(ucast (a XOR b :: c_int) :: uint16_t) = ucast a XOR ucast b"
  by (rule bit_word_eqI) (auto simp add: bit_simps)

lemma ucast_8_32_16: "(ucast (ucast (x::uint8_t) :: c_int) :: uint16_t) = ucast x"
  by (rule bit_word_eqI) (auto simp add: bit_simps dest: bit_imp_le_length)

lemma ucast_16_32_16: "(ucast (ucast (x::uint16_t) :: c_int) :: uint16_t) = x"
  by (rule bit_word_eqI) (auto simp add: bit_simps dest: bit_imp_le_length)

lemma bit_0x22: "bit (0x22 :: int) n \<longleftrightarrow> n = 1 \<or> n = 5"
proof -
  have "(0x22 :: int) = 2 ^ 1 OR 2 ^ 5" by simp
  then show ?thesis by (simp only: bit_or_iff bit_exp_iff) auto
qed

lemma test_0x80: "(x AND 0x80 \<noteq> 0) = bit x 7" for x :: "'a::len word"
  using and_exp_eq_0_iff_not_bit[of x 7] by simp

lemma test_0x08: "(x AND 0x08 \<noteq> 0) = bit x 3" for x :: "'a::len word"
  using and_exp_eq_0_iff_not_bit[of x 3] by simp

lemmas flag_tests =
  and_exp_eq_0_iff_not_bit[of _ 0, simplified] and_exp_eq_0_iff_not_bit[of _ 1, simplified]
  and_exp_eq_0_iff_not_bit[of _ 2, simplified] and_exp_eq_0_iff_not_bit[of _ 3, simplified]
  and_exp_eq_0_iff_not_bit[of _ 4, simplified] and_exp_eq_0_iff_not_bit[of _ 5, simplified]
  and_exp_eq_0_iff_not_bit[of _ 6, simplified] and_exp_eq_0_iff_not_bit[of _ 7, simplified]

lemma bit_0x100: "bit (0x100 :: int) n \<longleftrightarrow> n = 8"
  using bit_exp_iff[where ?'a=int, of 8 n] by simp

lemma bit_0x400: "bit (0x400 :: int) n \<longleftrightarrow> n = 10"
  using bit_exp_iff[where ?'a=int, of 10 n] by simp

lemma bit_0xFF: "bit (0xFF :: int) n \<longleftrightarrow> n < 8"
  using bit_mask_iff[where ?'a=int, of 8 n] by (simp add: mask_eq_exp_minus_1)

lemma word16_cast:
  "(ucast (ucast lo OR push_bit 8 (ucast hi :: c_int)) :: uint16_t) = word16 lo hi"
  unfolding word16_def
  by (rule bit_word_eqI) (auto simp add: bit_simps dest: bit_imp_le_length)

lemma hi_byte_cast:
  "(ucast (drop_bit 8 (ucast (pc::uint16_t) :: c_int) AND 0xFF) :: uint8_t)
     = ucast (drop_bit 8 pc)"
  by (rule bit_word_eqI) (auto simp add: bit_simps bit_0xFF dest: bit_imp_le_length)

lemma lo_byte_cast: "(ucast ((ucast (pc::uint16_t) :: c_int) AND 0xFF) :: uint8_t) = ucast pc"
  by (rule bit_word_eqI) (auto simp add: bit_simps bit_0xFF dest: bit_imp_le_length)

lemma word16_split: "word16 (ucast pc) (ucast (drop_bit 8 pc)) = pc"
  unfolding word16_def
  by (rule bit_word_eqI) (auto simp add: bit_simps dest: bit_imp_le_length)

lemma word16_succ_cast:
  "(ucast ((ucast lo OR push_bit 8 (ucast hi :: c_int)) + 1) :: uint16_t) = word16 lo hi + 1"
  by (simp only: ucast_down_add word16_cast) simp

lemma succ_cast: "(ucast ((ucast (pc::uint16_t) :: c_int) + 1) :: uint16_t) = pc + 1"
  by (simp only: ucast_down_add ucast_16_32_16) simp

section \<open>The stack\<close>

lemma stack_addr_cast:
  "(ucast (0x100 + (ucast (sp::uint8_t) :: c_int)) :: uint16_t) = stack_addr sp"
  by (simp add: stack_addr_def ucast_down_add ucast_8_32_16)

lemma unat_lt_256: "unat (sp::uint8_t) < 256"
  using unsigned_less[of sp, where ?'a=nat] by simp

lemma unat_ucast_8_16: "unat (ucast (sp::uint8_t) :: uint16_t) = unat sp"
  using unat_lt_256[of sp] by (simp add: unsigned_ucast_eq take_bit_nat_eq_self)

lemma unat_stack_addr: "unat (stack_addr sp) = 0x100 + unat sp"
  using unat_lt_256[of sp]
  by (simp add: stack_addr_def unat_word_ariths unat_ucast_8_16)

lemma stack_addr_ram: "stack_addr sp < 0xC000"
  using unat_lt_256[of sp] by (simp add: word_less_nat_alt unat_stack_addr)

lemma stack_addr_inj: "(stack_addr a = stack_addr b) = (a = b)"
  using unat_stack_addr[of a] unat_stack_addr[of b]
  by (auto simp add: word_unat_eq_iff)

lemma stack_addr_or: "stack_addr sp = 0x100 OR ucast sp"
  unfolding stack_addr_def
  by (rule disjunctive_add_eq_or)
     (rule bit_word_eqI, auto simp add: bit_simps bit_0x100 dest: bit_imp_le_length)

lemma stack_addr_novideo: "stack_addr sp AND 0x400 = 0"
  unfolding stack_addr_or
  by (rule bit_word_eqI)
     (auto simp add: bit_simps bit_0x100 bit_0x400 dest: bit_imp_le_length)

lemma push_eq:
  "push v s = s\<lparr>reg_SP := reg_SP s - 1, ram := (ram s)(stack_addr (reg_SP s) := v)\<rparr>"
  by (simp add: push_def Let_def stack_addr_cast writeMem_def stack_addr_novideo stack_addr_ram)

lemma pull_eq: "pull s = (ram s (stack_addr (reg_SP s + 1)), s\<lparr>reg_SP := reg_SP s + 1\<rparr>)"
  by (simp add: pull_def Let_def stack_addr_cast readMem_def stack_addr_ram)

lemma readMem_vector_lo: "readMem 0xFFFE s = (rom s 0x2FFE, s)"
  by (simp add: readMem_def)

lemma readMem_vector_hi: "readMem 0xFFFF s = (rom s 0x2FFF, s)"
  by (simp add: readMem_def)

section \<open>Flags\<close>

lemma if_flag_set:
  "(if b then s\<lparr>reg_SR := reg_SR s OR m\<rparr> else s\<lparr>reg_SR := reg_SR s AND NOT m\<rparr>)
     = s\<lparr>reg_SR := flag_set m b (reg_SR s)\<rparr>"
  by (simp add: flag_set_def)

lemma setSZ_eq:
  "setSZ v s = s\<lparr>reg_SR := flag_set SIGN (bit v 7) (flag_set ZERO (v = 0) (reg_SR s))\<rparr>"
  by (simp add: setSZ_def flag_set_def Let_def test_0x80)

lemma DECIMAL_flag_set:
  "(flag_set OVERFLOW b1 (flag_set SIGN b2 (flag_set ZERO b3 sr)) AND DECIMAL \<noteq> 0)
     = (sr AND DECIMAL \<noteq> 0)"
  by (simp add: flag_set_def test_0x08 bit_simps)

section \<open>ADC\<close>

lemma ADC_sum:
  "(ucast ((ucast (a::uint8_t) :: c_int) + ucast (v::uint16_t) + ucast (c::uint8_t)) :: uint16_t)
     = ucast a + v + ucast c"
  by (simp add: ucast_down_add ucast_8_32_16 ucast_16_32_16)

lemma ucast_adjust:
  "(ucast (drop_bit 3 (x::c_int) AND 0x22) :: uint16_t) = drop_bit 3 (ucast x) AND 0x22"
  apply (rule bit_word_eqI)
  apply (auto simp add: bit_simps bit_0x22 dest: bit_imp_le_length)
  done

lemma ADC_adjust:
  "(ucast ((ucast (r::uint16_t) :: c_int)
       + (drop_bit 3 (((ucast r :: c_int) + 0x66) XOR ucast (a::uint8_t) XOR ucast (v::uint16_t))
            AND 0x22) * 3) :: uint16_t)
   = r + (drop_bit 3 ((r + 0x66) XOR ucast a XOR v) AND 0x22) * 3"
proof -
  have x: "(ucast (((ucast r :: c_int) + 0x66) XOR ucast a XOR ucast v) :: uint16_t)
             = (r + 0x66) XOR ucast a XOR v"
    by (simp only: ucast_down_xor ucast_down_add ucast_8_32_16 ucast_16_32_16) simp
  have three: "(ucast (3 :: c_int) :: uint16_t) = 3" by simp
  show ?thesis
    by (simp only: ucast_down_add ucast_down_mult ucast_adjust x ucast_16_32_16 three)
qed

lemma ADC_overflow:
  "(((ucast (r::uint16_t) :: c_int) XOR ucast (a::uint8_t))
       AND (ucast r XOR ucast (v::uint16_t)) AND 0x0080 \<noteq> 0)
   = ((r XOR ucast a) AND (r XOR v) AND 0x80 \<noteq> 0)"
  by (simp add: test_0x80 and.assoc[symmetric] bit_simps)

lemma ADC_refines: "exec ADC s = ADC_spec s"
  apply (simp only: exec.simps Let_def ADC_sum ADC_adjust ADC_overflow setSZ_eq if_flag_set)
  apply (simp add: ADC_spec_def Let_def DECIMAL_flag_set
           del: CARRY_def OVERFLOW_def DECIMAL_def ZERO_def SIGN_def)
  done

lemma ADC_binary_example:
  assumes "reg_A s = 0x50" "ope_value s = 0x50"
    and "reg_SR s AND CARRY = 0" "reg_SR s AND DECIMAL = 0"
  shows "reg_A (exec ADC s) = 0xA0 \<and> reg_SR (exec ADC s) AND SIGN \<noteq> 0
     \<and> reg_SR (exec ADC s) AND OVERFLOW \<noteq> 0 \<and> reg_SR (exec ADC s) AND ZERO = 0
     \<and> reg_SR (exec ADC s) AND CARRY = 0"
  using assms unfolding ADC_refines ADC_spec_def
  apply (simp add: Let_def flag_set_def)
  apply (simp add: flag_tests bit_simps)
  done

lemma ADC_decimal_example:
  assumes "reg_A s = 0x15" "ope_value s = 0x27"
    and "reg_SR s AND CARRY = 0" "reg_SR s AND DECIMAL \<noteq> 0"
  shows "reg_A (exec ADC s) = 0x42 \<and> reg_SR (exec ADC s) AND CARRY = 0"
  using assms unfolding ADC_refines ADC_spec_def
  apply (simp add: Let_def flag_set_def)
  apply (simp add: flag_tests bit_simps)
  done

text \<open>
  Claim C1.  In every machine state ADC does what the specification says: it forms the
  16-bit sum \<open>r = A + value + C\<close>, sets N and Z from the low byte of that binary sum (also
  in decimal mode), sets V iff \<open>(r XOR A) AND (r XOR value) AND 0x80\<close> is not zero, adds the
  decimal adjustment \<open>(((r + 0x66) XOR A XOR value) >> 3 AND 0x22) * 3\<close> when D is set, sets
  C iff the high byte of \<open>r\<close> is not zero and stores the low byte of \<open>r\<close> into A.  From
  \<open>A = 0x50\<close>, \<open>value = 0x50\<close>, C and D clear it gives \<open>A = 0xA0\<close>, N and V set, Z and C
  clear; from \<open>A = 0x15\<close>, \<open>value = 0x27\<close>, C clear and D set it gives \<open>A = 0x42\<close>, C clear.
\<close>

theorem ADC_meets_spec:
  "exec ADC s = ADC_spec s
   \<and> (reg_A s = 0x50 \<and> ope_value s = 0x50 \<and> reg_SR s AND CARRY = 0
        \<and> reg_SR s AND DECIMAL = 0
      \<longrightarrow> reg_A (exec ADC s) = 0xA0 \<and> reg_SR (exec ADC s) AND SIGN \<noteq> 0
          \<and> reg_SR (exec ADC s) AND OVERFLOW \<noteq> 0 \<and> reg_SR (exec ADC s) AND ZERO = 0
          \<and> reg_SR (exec ADC s) AND CARRY = 0)
   \<and> (reg_A s = 0x15 \<and> ope_value s = 0x27 \<and> reg_SR s AND CARRY = 0
        \<and> reg_SR s AND DECIMAL \<noteq> 0
      \<longrightarrow> reg_A (exec ADC s) = 0x42 \<and> reg_SR (exec ADC s) AND CARRY = 0)"
  using ADC_refines ADC_binary_example ADC_decimal_example by blast

theorem ADC_meets_spec_witness:
  "reg_A (exec ADC (power_on\<lparr>reg_A := 0x50, ope_value := 0x50\<rparr>)) = 0xA0
   \<and> reg_SR (exec ADC (power_on\<lparr>reg_A := 0x50, ope_value := 0x50\<rparr>)) = 0xC0
   \<and> reg_A (exec ADC (power_on\<lparr>reg_A := 0x15, ope_value := 0x27, reg_SR := 0x08\<rparr>)) = 0x42
   \<and> reg_SR (exec ADC (power_on\<lparr>reg_A := 0x15, ope_value := 0x27, reg_SR := 0x08\<rparr>))
        AND CARRY = 0"
  using ADC_meets_spec [of "power_on\<lparr>reg_A := 0x50, ope_value := 0x50\<rparr>"]
        ADC_meets_spec [of "power_on\<lparr>reg_A := 0x15, ope_value := 0x27, reg_SR := 0x08\<rparr>"]
  by (simp add: power_on_def ADC_spec_def flag_set_def Let_def del: exec.simps)

section \<open>The bus\<close>

text \<open>
  Claim C3, as amended.  A read of \<open>$C000\<close> returns the keyboard latch and leaves the
  machine, the latch included, as it was; bit 7 of the latch is not cleared by the read.
\<close>

theorem readMem_KBD_unchanged: "readMem 0xC000 s = (key s, s)"
  by (simp add: readMem_def)

text \<open>
  Claim C3, as stated, fails: with the latch at \<open>0xC1\<close> a read of \<open>$C000\<close> leaves the latch
  at \<open>0xC1\<close>, and a second read returns \<open>0xC1\<close> again, bit 7 still set.
\<close>

theorem readMem_KBD_keeps_bit7:
  "key (snd (readMem 0xC000 (power_on\<lparr>key := 0xC1\<rparr>))) = 0xC1
   \<and> fst (readMem 0xC000 (snd (readMem 0xC000 (power_on\<lparr>key := 0xC1\<rparr>)))) = 0xC1"
  by (simp add: readMem_def power_on_def)

text \<open>
  Claim C5.  After \<open>writeMem addr b\<close> the video flag is true when bit 10 of \<open>addr\<close> is set,
  whatever \<open>addr\<close> targets, and is what it was when bit 10 is clear; a write to \<open>$0400\<close>
  sets it, a write to \<open>$0300\<close> leaves it alone and a write to \<open>$0C00\<close> sets it.
\<close>

theorem writeMem_video_flag:
  "(addr AND 0x0400 \<noteq> 0 \<longrightarrow> videoNeedsRefresh (writeMem addr b s))
   \<and> (addr AND 0x0400 = 0
        \<longrightarrow> videoNeedsRefresh (writeMem addr b s) = videoNeedsRefresh s)
   \<and> videoNeedsRefresh (writeMem 0x0400 b s)
   \<and> videoNeedsRefresh (writeMem 0x0300 b s) = videoNeedsRefresh s
   \<and> videoNeedsRefresh (writeMem 0x0C00 b s)"
  by (simp add: writeMem_def Let_def)

theorem writeMem_video_flag_witness:
  "(0x0400 :: uint16_t) AND 0x0400 \<noteq> 0 \<and> (0x0300 :: uint16_t) AND 0x0400 = 0
   \<and> (0xD400 :: uint16_t) AND 0x0400 \<noteq> 0
   \<and> videoNeedsRefresh (writeMem 0x0400 0 (power_on\<lparr>videoNeedsRefresh := False\<rparr>))
   \<and> \<not> videoNeedsRefresh (writeMem 0x0300 0 (power_on\<lparr>videoNeedsRefresh := False\<rparr>))
   \<and> videoNeedsRefresh (writeMem 0xD400 0 (power_on\<lparr>videoNeedsRefresh := False\<rparr>))"
  using writeMem_video_flag [of "0x0400" 0 "power_on\<lparr>videoNeedsRefresh := False\<rparr>"]
        writeMem_video_flag [of "0x0300" 0 "power_on\<lparr>videoNeedsRefresh := False\<rparr>"]
        writeMem_video_flag [of "0xD400" 0 "power_on\<lparr>videoNeedsRefresh := False\<rparr>"]
  by simp

section \<open>Interrupts and the status register on the stack\<close>

lemma BRK_eq:
  "exec BRK s = s\<lparr>reg_PC := word16 (rom s 0x2FFE) (rom s 0x2FFF),
      reg_SP := reg_SP s - 3, reg_SR := reg_SR s OR INTERRUPT,
      ram := (ram s)(stack_addr (reg_SP s) := ucast (drop_bit 8 (reg_PC s + 1)),
                     stack_addr (reg_SP s - 1) := ucast (reg_PC s + 1),
                     stack_addr (reg_SP s - 2) := reg_SR s OR BREAK)\<rparr>"
  by (simp add: Let_def push_eq hi_byte_cast lo_byte_cast readMem_vector_lo readMem_vector_hi
        word16_cast)

text \<open>
  Claim C7.  In every machine state BRK, entered with PC just after the opcode, advances
  PC by one more byte, pushes the high byte of that PC at the stack slot \<open>SP\<close>, its low
  byte at \<open>SP - 1\<close> and \<open>SR OR BREAK\<close> (bit 4 set) at \<open>SP - 2\<close>, leaves \<open>SP - 3\<close> in SP, sets
  I in SR and loads PC from the little-endian vector at \<open>$FFFE/$FFFF\<close>; nothing else
  changes.  Opcode \<open>0x00\<close> is dispatched to BRK with the implicit addressing mode.
\<close>

theorem BRK_pushes_and_vectors:
  "exec BRK s = s\<lparr>reg_PC := word16 (rom s 0x2FFE) (rom s 0x2FFF),
      reg_SP := reg_SP s - 3, reg_SR := reg_SR s OR INTERRUPT,
      ram := (ram s)(stack_addr (reg_SP s) := ucast (drop_bit 8 (reg_PC s + 1)),
                     stack_addr (reg_SP s - 1) := ucast (reg_PC s + 1),
                     stack_addr (reg_SP s - 2) := reg_SR s OR BREAK)\<rparr>
   \<and> ram (exec BRK s) (stack_addr (reg_SP s)) = ucast (drop_bit 8 (reg_PC s + 1))
   \<and> ram (exec BRK s) (stack_addr (reg_SP s - 1)) = ucast (reg_PC s + 1)
   \<and> ram (exec BRK s) (stack_addr (reg_SP s - 2)) = reg_SR s OR BREAK
   \<and> bit (reg_SR s OR BREAK) 4
   \<and> bit (reg_SR (exec BRK s)) 2
   \<and> reg_PC (exec BRK s) = word16 (fst (readMem 0xFFFE s)) (fst (readMem 0xFFFF s))
   \<and> instruction ! 0x00 = BRK \<and> addressing ! 0x00 = IMP"
  unfolding BRK_eq
  by (simp add: stack_addr_inj readMem_vector_lo readMem_vector_hi bit_simps
        instruction_def addressing_def)

text \<open>
  Claim C2.  The code does not do what the claim says: RTI stores the pulled byte into SR
  as it is, where PLP sets the U bit in it.  After a reset with the stack page all zero,
  RTI leaves U clear and PLP leaves it set.
\<close>

theorem RTI_leaves_U_clear:
  "reg_SR (reset power_on) AND UNDEFINED = UNDEFINED
   \<and> reg_SR (exec RTI (reset power_on)) AND UNDEFINED = 0
   \<and> reg_SR (exec PLP (reset power_on)) AND UNDEFINED = UNDEFINED"
  by (simp add: reset_def power_on_def readMem_def pull_eq Let_def)

section \<open>The step and the jump tables\<close>

lemma table_lengths: "length instruction = 256" "length addressing = 256"
  by (simp_all add: instruction_def addressing_def)

lemma readMem_PC:
  "readMem a (s\<lparr>reg_PC := x\<rparr>) = (fst (readMem a s), (snd (readMem a s))\<lparr>reg_PC := x\<rparr>)"
  by (simp add: readMem_def Let_def)

lemma snd_readMem:
  "snd (readMem a s) = (if a = 0xC010 then s\<lparr>key := key s AND 0x7F\<rparr> else s)"
  by (simp add: readMem_def Let_def)

lemma step_eq:
  "step s = (let opcode = fst (readMem (reg_PC s) s);
                 t = (snd (readMem (reg_PC s) s))\<lparr>reg_PC := reg_PC s + 1\<rparr>
             in exec (instruction ! unat opcode) (resolve (addressing ! unat opcode) t))"
  by (simp add: step_def Let_def readMem_PC)

subsection \<open>Undocumented opcodes\<close>

lemma undocumented_table_all:
  "list_all (\<lambda>(n, i, a). n \<in> set documented_opcodes \<or> (i = UND \<and> a = IMP))
     (enumerate 0 (zip instruction addressing))"
  unfolding documented_opcodes_def instruction_def addressing_def
  by (simp add: numeral_2_eq_2[symmetric])

lemma undocumented_table:
  assumes "\<not> documented op"
  shows "instruction ! unat op = UND \<and> addressing ! unat op = IMP"
proof -
  have lt: "unat op < 256" by (rule unat_lt_256)
  then have "(unat op, instruction ! unat op, addressing ! unat op)
               \<in> set (enumerate 0 (zip instruction addressing))"
    by (simp add: in_set_enumerate_eq table_lengths)
  with undocumented_table_all
  have "unat op \<in> set documented_opcodes
         \<or> (instruction ! unat op = UND \<and> addressing ! unat op = IMP)"
    unfolding list_all_iff by blast
  with assms show ?thesis by (simp add: documented_def)
qed

text \<open>
  Claim C9, as amended.  When the opcode byte fetched at PC is not the opcode of a
  documented 6502 instruction, the step advances PC by exactly 1 and leaves A, X, Y, SP,
  SR, the RAM, the ROM, the video flag and the operand record unchanged.  The keyboard
  latch is unchanged as well, unless the opcode byte is fetched from \<open>$C010\<close>: there the
  fetch itself clears bit 7 of the latch.
\<close>

theorem undocumented_opcode_step:
  assumes "\<not> documented (fst (readMem (reg_PC s) s))"
  shows "step s = (snd (readMem (reg_PC s) s))\<lparr>reg_PC := reg_PC s + 1\<rparr>
    \<and> reg_PC (step s) = reg_PC s + 1
    \<and> reg_A (step s) = reg_A s \<and> reg_X (step s) = reg_X s \<and> reg_Y (step s) = reg_Y s
    \<and> reg_SP (step s) = reg_SP s \<and> reg_SR (step s) = reg_SR s
    \<and> ram (step s) = ram s \<and> rom (step s) = rom s
    \<and> videoNeedsRefresh (step s) = videoNeedsRefresh s
    \<and> ope_setAcc (step s) = ope_setAcc s \<and> ope_value (step s) = ope_value s
    \<and> ope_address (step s) = ope_address s
    \<and> key (step s) = (if reg_PC s = 0xC010 then key s AND 0x7F else key s)"
  using undocumented_table[OF assms]
  by (simp add: step_eq Let_def snd_readMem)

theorem undocumented_opcode_step_witness:
  "\<not> documented (fst (readMem (reg_PC (power_on\<lparr>ram := (\<lambda>_. 0)(0 := 0x02), reg_A := 7\<rparr>))
          (power_on\<lparr>ram := (\<lambda>_. 0)(0 := 0x02), reg_A := 7\<rparr>)))
   \<and> step (power_on\<lparr>ram := (\<lambda>_. 0)(0 := 0x02), reg_A := 7\<rparr>)
       = power_on\<lparr>ram := (\<lambda>_. 0)(0 := 0x02), reg_A := 7, reg_PC := 1\<rparr>"
proof -
  have h: "\<not> documented
             (fst (readMem (reg_PC (power_on\<lparr>ram := (\<lambda>_. 0)(0 := 0x02), reg_A := 7\<rparr>))
                (power_on\<lparr>ram := (\<lambda>_. 0)(0 := 0x02), reg_A := 7\<rparr>)))"
    by (simp add: power_on_def readMem_def documented_def documented_opcodes_def)
  show ?thesis
    using h undocumented_opcode_step[OF h]
    by (simp add: power_on_def readMem_def)
qed

text \<open>
  Claim C9, as stated, fails: with PC at \<open>$C010\<close> and the latch at \<open>0x82\<close>, the byte fetched
  is \<open>0x02\<close>, which is no documented opcode, and the step changes the latch to \<open>0x02\<close>.
\<close>

theorem undocumented_opcode_strobe:
  "\<not> documented (fst (readMem (reg_PC (power_on\<lparr>reg_PC := 0xC010, key := 0x82\<rparr>))
                         (power_on\<lparr>reg_PC := 0xC010, key := 0x82\<rparr>)))
   \<and> key (power_on\<lparr>reg_PC := 0xC010, key := 0x82\<rparr>) = 0x82
   \<and> key (step (power_on\<lparr>reg_PC := 0xC010, key := 0x82\<rparr>)) = 0x02"
  by (simp add: power_on_def step_def readMem_def Let_def documented_def documented_opcodes_def
        instruction_def addressing_def)

section \<open>The accumulator flag of the operand record\<close>

lemma readMem_setAcc [simp]: "ope_setAcc (snd (readMem a s)) = ope_setAcc s"
  by (simp add: snd_readMem)

lemma readMem_reg_A [simp]: "reg_A (snd (readMem a s)) = reg_A s"
  by (simp add: snd_readMem)

lemma writeMem_setAcc [simp]: "ope_setAcc (writeMem a v s) = ope_setAcc s"
  by (simp add: writeMem_def Let_def)

lemma writeMem_reg_A [simp]: "reg_A (writeMem a v s) = reg_A s"
  by (simp add: writeMem_def Let_def)

lemma setSZ_setAcc [simp]: "ope_setAcc (setSZ v s) = ope_setAcc s"
  by (simp add: setSZ_eq)

lemma setSZ_reg_A [simp]: "reg_A (setSZ v s) = reg_A s"
  by (simp add: setSZ_eq)

lemma reset_setAcc: "\<not> ope_setAcc (reset s)"
  by (simp add: reset_def Let_def split_beta)

lemma resolve_setAcc: "m \<noteq> ACC \<Longrightarrow> ope_setAcc (resolve m s) = ope_setAcc s"
  by (cases m) (simp_all add: Let_def split_beta)

lemma resolve_reg_A: "reg_A (resolve m s) = reg_A s"
  by (cases m) (simp_all add: Let_def split_beta)

lemma makeUpdates_setAcc: "\<not> ope_setAcc (makeUpdates v s)"
  by (simp add: makeUpdates_def Let_def)

lemma shift_clears_setAcc: "i \<in> {ASL, ROL, LSR, ROR} \<Longrightarrow> \<not> ope_setAcc (exec i s)"
  by (auto simp add: Let_def makeUpdates_setAcc)

lemma shift_memory_reg_A:
  "i \<in> {ASL, ROL, LSR, ROR} \<Longrightarrow> \<not> ope_setAcc s \<Longrightarrow> reg_A (exec i s) = reg_A s"
  by (auto simp add: Let_def makeUpdates_def)

lemma keyboard_setAcc: "\<not> ope_setAcc s \<Longrightarrow> \<not> ope_setAcc (keyboard f7 ch s)"
  by (simp add: keyboard_def Let_def reset_setAcc)

lemma video_setAcc: "ope_setAcc (video s) = ope_setAcc s"
  by (simp add: video_def)

lemma if_branches_cong:
  "x = x' \<Longrightarrow> y = y' \<Longrightarrow> (if c then x else y) = (if c then x' else y')"
  by simp

lemma exec_setAcc: "\<not> ope_setAcc s \<Longrightarrow> \<not> ope_setAcc (exec i s)"
  by (cases i)
     (simp_all add: Let_def split_beta push_eq pull_eq makeUpdates_setAcc
         if_distrib[of ope_setAcc] cong: if_branches_cong split del: if_split)

lemma ACC_table_all:
  "list_all (\<lambda>(n, i, a). (a = ACC) = (n \<in> {0x0A, 0x2A, 0x4A, 0x6A})
                          \<and> (a = ACC \<longrightarrow> i \<in> {ASL, ROL, LSR, ROR}))
     (enumerate 0 (zip instruction addressing))"
  unfolding instruction_def addressing_def
  by (simp add: numeral_2_eq_2[symmetric])

lemma ACC_table:
  assumes "n < 256"
  shows "(addressing ! n = ACC) = (n \<in> {0x0A, 0x2A, 0x4A, 0x6A})"
    and "addressing ! n = ACC \<Longrightarrow> instruction ! n \<in> {ASL, ROL, LSR, ROR}"
proof -
  from assms have "(n, instruction ! n, addressing ! n)
               \<in> set (enumerate 0 (zip instruction addressing))"
    by (simp add: in_set_enumerate_eq table_lengths)
  with ACC_table_all
  have "(addressing ! n = ACC) = (n \<in> {0x0A, 0x2A, 0x4A, 0x6A})
         \<and> (addressing ! n = ACC \<longrightarrow> instruction ! n \<in> {ASL, ROL, LSR, ROR})"
    unfolding list_all_iff by (auto simp del: insert_iff)
  then have both: "(addressing ! n = ACC) = (n \<in> {0x0A, 0x2A, 0x4A, 0x6A})
         \<and> (addressing ! n = ACC \<longrightarrow> instruction ! n \<in> {ASL, ROL, LSR, ROR})" .
  from both show "(addressing ! n = ACC) = (n \<in> {0x0A, 0x2A, 0x4A, 0x6A})"
    by (rule conjunct1)
  from both show "addressing ! n = ACC \<Longrightarrow> instruction ! n \<in> {ASL, ROL, LSR, ROR}"
    by (rule conjunct2[THEN mp])
qed

lemma step_setAcc:
  assumes "\<not> ope_setAcc s" shows "\<not> ope_setAcc (step s)"
proof -
  define op where "op = fst (readMem (reg_PC s) s)"
  define t where "t = (snd (readMem (reg_PC s) s))\<lparr>reg_PC := reg_PC s + 1\<rparr>"
  have st: "step s = exec (instruction ! unat op) (resolve (addressing ! unat op) t)"
    by (simp add: step_eq Let_def op_def t_def)
  have t: "\<not> ope_setAcc t" using assms by (simp add: t_def)
  show ?thesis
  proof (cases "addressing ! unat op = ACC")
    case True
    then have "instruction ! unat op \<in> {ASL, ROL, LSR, ROR}"
      using ACC_table(2)[OF unat_lt_256] by blast
    then show ?thesis unfolding st by (rule shift_clears_setAcc)
  next
    case False
    then have "\<not> ope_setAcc (resolve (addressing ! unat op) t)"
      using t by (simp add: resolve_setAcc)
    then show ?thesis unfolding st by (rule exec_setAcc)
  qed
qed

lemma step_shift_memory_reg_A:
  assumes "\<not> ope_setAcc s"
    and "instruction ! unat (fst (readMem (reg_PC s) s)) \<in> {ASL, ROL, LSR, ROR}"
    and "addressing ! unat (fst (readMem (reg_PC s) s)) \<noteq> ACC"
  shows "reg_A (step s) = reg_A s"
proof -
  define op where "op = fst (readMem (reg_PC s) s)"
  define t where "t = (snd (readMem (reg_PC s) s))\<lparr>reg_PC := reg_PC s + 1\<rparr>"
  have st: "step s = exec (instruction ! unat op) (resolve (addressing ! unat op) t)"
    by (simp add: step_eq Let_def op_def t_def)
  have "\<not> ope_setAcc t" using assms(1) by (simp add: t_def)
  with assms(3) have "\<not> ope_setAcc (resolve (addressing ! unat op) t)"
    by (simp add: resolve_setAcc op_def)
  with assms(2) have "reg_A (step s) = reg_A (resolve (addressing ! unat op) t)"
    unfolding st op_def by (rule shift_memory_reg_A)
  then show ?thesis by (simp add: resolve_reg_A t_def)
qed

lemma run_setAcc: "\<not> ope_setAcc s \<Longrightarrow> \<not> ope_setAcc (run f7 es s)"
proof (induction f7 es s rule: run.induct)
  case (1 KEY_F7 s)
  then show ?case by simp
next
  case (2 KEY_F7 es s)
  then show ?case by (simp add: step_setAcc)
next
  case (3 KEY_F7 ch es s)
  then show ?case by (simp add: keyboard_setAcc)
next
  case (4 KEY_F7 es s)
  then show ?case by (simp add: video_setAcc)
qed

text \<open>
  Claim C10.  \<open>ope.setAcc\<close> is false at the start of every fetch/decode/execute step
  that the main loop reaches after \<^verbatim>\<open>reset\<close>, whatever steps, key presses and screen
  refreshes came before.  The resolvers other than ACC leave the flag as it is and ACC
  sets it; the opcodes dispatched to ACC are exactly \<open>0x0A\<close>, \<open>0x2A\<close>, \<open>0x4A\<close> and \<open>0x6A\<close>,
  which execute ASL, ROL, LSR and ROR; each of these four instructions leaves the flag
  false.  So a shift or rotate with a memory addressing mode, executed in a reachable
  state, leaves the accumulator alone.
\<close>

theorem setAcc_false_at_every_step:
  "\<not> ope_setAcc (run KEY_F7 es (reset s0))
   \<and> (m \<noteq> ACC \<longrightarrow> ope_setAcc (resolve m s) = ope_setAcc s)
   \<and> ope_setAcc (resolve ACC s)
   \<and> (n < 256 \<longrightarrow> (addressing ! n = ACC) = (n \<in> {0x0A, 0x2A, 0x4A, 0x6A}))
   \<and> instruction ! 0x0A = ASL \<and> instruction ! 0x2A = ROL
   \<and> instruction ! 0x4A = LSR \<and> instruction ! 0x6A = ROR
   \<and> (i \<in> {ASL, ROL, LSR, ROR} \<longrightarrow> \<not> ope_setAcc (exec i s))
   \<and> (let t = run KEY_F7 es (reset s0); opcode = fst (readMem (reg_PC t) t)
      in instruction ! unat opcode \<in> {ASL, ROL, LSR, ROR}
         \<longrightarrow> addressing ! unat opcode \<noteq> ACC \<longrightarrow> reg_A (step t) = reg_A t)"
proof -
  have inv: "\<not> ope_setAcc (run KEY_F7 es (reset s0))"
    by (rule run_setAcc) (rule reset_setAcc)
  have c2: "m \<noteq> ACC \<longrightarrow> ope_setAcc (resolve m s) = ope_setAcc s"
    using resolve_setAcc by blast
  have c3: "ope_setAcc (resolve ACC s)"
    by (simp add: Let_def)
  have c4: "n < 256 \<longrightarrow> (addressing ! n = ACC) = (n \<in> {0x0A, 0x2A, 0x4A, 0x6A})"
    using ACC_table(1) by blast
  have t1: "instruction ! 0x0A = ASL" and t2: "instruction ! 0x2A = ROL"
    and t3: "instruction ! 0x4A = LSR" and t4: "instruction ! 0x6A = ROR"
    by (simp_all add: instruction_def)
  have c5: "i \<in> {ASL, ROL, LSR, ROR} \<longrightarrow> \<not> ope_setAcc (exec i s)"
    by (rule impI) (rule shift_clears_setAcc)
  have c6: "let t = run KEY_F7 es (reset s0); opcode = fst (readMem (reg_PC t) t)
      in instruction ! unat opcode \<in> {ASL, ROL, LSR, ROR}
         \<longrightarrow> addressing ! unat opcode \<noteq> ACC \<longrightarrow> reg_A (step t) = reg_A t"
    unfolding Let_def by (intro impI) (rule step_shift_memory_reg_A[OF inv])
  show ?thesis
    by (intro conjI) (rule inv c2 c3 c4 t1 t2 t3 t4 c5 c6)+
qed

theorem setAcc_false_at_every_step_witness:
  "\<not> ope_setAcc (run 0x10F [Step, Input 0x61, Refresh, Step] (reset shift_demo))
   \<and> IMM \<noteq> ACC \<and> ope_setAcc (resolve IMM shift_demo) = ope_setAcc shift_demo
   \<and> (0x0A :: nat) < 256 \<and> addressing ! 0x0A = ACC
   \<and> ASL \<in> {ASL, ROL, LSR, ROR} \<and> \<not> ope_setAcc (exec ASL shift_demo)
   \<and> instruction ! unat (fst (readMem (reg_PC (reset shift_demo)) (reset shift_demo)))
        \<in> {ASL, ROL, LSR, ROR}
   \<and> addressing ! unat (fst (readMem (reg_PC (reset shift_demo)) (reset shift_demo))) \<noteq> ACC
   \<and> reg_A (step (reset shift_demo)) = 0x55"
proof -
  note T = setAcc_false_at_every_step
             [of "0x10F" "[Step, Input 0x61, Refresh, Step]" shift_demo IMM shift_demo "0x0A" ASL]
  note U = setAcc_false_at_every_step [of "0x10F" "[]" shift_demo IMM shift_demo "0x0A" ASL]
  have c1: "\<not> ope_setAcc (run 0x10F [Step, Input 0x61, Refresh, Step] (reset shift_demo))"
    using T by (elim conjE)
  have "IMM \<noteq> ACC \<longrightarrow> ope_setAcc (resolve IMM shift_demo) = ope_setAcc shift_demo"
    using T by (elim conjE)
  then have c2: "IMM \<noteq> ACC \<and> ope_setAcc (resolve IMM shift_demo) = ope_setAcc shift_demo"
    by (simp del: resolve.simps)
  have "(0x0A :: nat) < 256 \<longrightarrow> (addressing ! 0x0A = ACC) = ((0x0A :: nat) \<in> {0x0A, 0x2A, 0x4A, 0x6A})"
    using T by (elim conjE)
  then have c3: "(0x0A :: nat) < 256 \<and> addressing ! 0x0A = ACC"
    by simp
  have "ASL \<in> {ASL, ROL, LSR, ROR} \<longrightarrow> \<not> ope_setAcc (exec ASL shift_demo)"
    using T by (elim conjE)
  then have c4: "ASL \<in> {ASL, ROL, LSR, ROR} \<and> \<not> ope_setAcc (exec ASL shift_demo)"
    by (simp del: exec.simps)
  have r: "reset shift_demo = shift_demo\<lparr>reg_SP := 0xFF, reg_SR := 0x20\<rparr>"
    by (simp add: reset_def shift_demo_def power_on_def readMem_def Let_def)
  have f: "fst (readMem (reg_PC (reset shift_demo)) (reset shift_demo)) = 0x06"
    unfolding r by (simp add: shift_demo_def power_on_def readMem_def)
  have h1: "instruction ! unat (fst (readMem (reg_PC (reset shift_demo)) (reset shift_demo)))
              \<in> {ASL, ROL, LSR, ROR}"
    unfolding f by (simp add: instruction_def)
  have h2: "addressing ! unat (fst (readMem (reg_PC (reset shift_demo)) (reset shift_demo)))
              \<noteq> ACC"
    unfolding f by (simp add: addressing_def)
  have "let t = run 0x10F [] (reset shift_demo); opcode = fst (readMem (reg_PC t) t)
      in instruction ! unat opcode \<in> {ASL, ROL, LSR, ROR}
         \<longrightarrow> addressing ! unat opcode \<noteq> ACC \<longrightarrow> reg_A (step t) = reg_A t"
    using U by (elim conjE)
  then have "reg_A (step (reset shift_demo)) = reg_A (reset shift_demo)"
    unfolding Let_def run.simps using h1 h2 by blast
  then have c5: "reg_A (step (reset shift_demo)) = 0x55"
    unfolding r by (simp add: shift_demo_def)
  show ?thesis
    using c1 c2 c3 c4 h1 h2 c5 by (intro conjI) (elim conjE, assumption)+
qed

section \<open>Instructions fetched from memory\<close>

lemma readMem_cell:
  assumes "\<not> io_window a"
  shows "readMem a s = (cell s a, s)"
proof (cases "a < RAMSIZE")
  case True
  then show ?thesis by (simp only: readMem_def cell_def if_True)
next
  case False
  with assms have "ROMSTART \<le> a"
    unfolding io_window_def by (meson not_le)
  with False show ?thesis by (simp only: readMem_def cell_def if_True if_False)
qed

lemma cell_cong: "ram t = ram s \<Longrightarrow> rom t = rom s \<Longrightarrow> cell t a = cell s a"
  by (simp only: cell_def)

lemma program_at_cong:
  "ram t = ram s \<Longrightarrow> rom t = rom s \<Longrightarrow> program_at t a bs = program_at s a bs"
proof (induction bs arbitrary: a)
  case Nil
  show ?case by simp
next
  case (Cons b bs)
  from Cons.prems have c: "cell t a = cell s a" by (rule cell_cong)
  from Cons.IH[OF Cons.prems] have "program_at t (a + 1) bs = program_at s (a + 1) bs" .
  with c show ?case by (simp only: program_at.simps)
qed

lemma readMem_ope_address:
  "readMem a (s\<lparr>ope_address := x\<rparr>)
     = (fst (readMem a s), (snd (readMem a s))\<lparr>ope_address := x\<rparr>)"
  by (simp add: readMem_def Let_def)

lemma low_byte_succ:
  "((ucast (v::uint16_t) :: c_int) + 1) AND 0xFF = ucast ((ucast v :: uint8_t) + 1)"
proof -
  have m: "(x AND 0xFF) = take_bit 8 x" for x :: c_int
    by (simp add: take_bit_eq_mask mask_eq_exp_minus_1)
  have d: "Suc n mod 4294967296 mod 256 = Suc n mod 256" for n :: nat
    by (rule mod_mod_cancel) simp
  show ?thesis
    unfolding m
    by (simp add: word_eq_iff_unsigned[where ?'a=nat] unsigned_take_bit_eq unat_word_ariths
          unsigned_ucast_eq take_bit_eq_mod mod_simps d)
qed

lemma bit_0xFF00: "bit (0xFF00 :: int) n \<longleftrightarrow> 8 \<le> n \<and> n < 16"
proof -
  have "(0xFF00 :: int) = push_bit 8 (mask 8)" by (simp add: mask_eq_exp_minus_1)
  then show ?thesis by (simp only: bit_push_bit_iff bit_mask_iff) auto
qed

lemma vector2_cast:
  "(ucast (((ucast (v::uint16_t) :: c_int) AND 0xFF00) OR ucast (b::uint8_t)) :: uint16_t)
     = word16 b (ucast (drop_bit 8 v))"
  unfolding word16_def
  by (rule bit_word_eqI) (auto simp add: bit_simps bit_0xFF00 dest: bit_imp_le_length)

lemma word16_lo: "(ucast (word16 lo hi) :: uint8_t) = lo"
  unfolding word16_def
  by (rule bit_word_eqI) (auto simp add: bit_simps dest: bit_imp_le_length)

lemma word16_hi: "(ucast (drop_bit 8 (word16 lo hi)) :: uint8_t) = hi"
  unfolding word16_def
  by (rule bit_word_eqI) (auto simp add: bit_simps dest: bit_imp_le_length)

lemma IND_vector2:
  "(ucast ((ucast (word16 lo hi) :: c_int) AND 0xFF00
           OR ((ucast (word16 lo hi) + 1) AND 0x00FF)) :: uint16_t)
     = word16 (lo + 1) hi"
  by (simp only: low_byte_succ vector2_cast word16_lo word16_hi)

lemma ucast_8_16_8: "(ucast (ucast (v::uint8_t) :: uint16_t) :: uint8_t) = v"
  by (rule bit_word_eqI) (auto simp add: bit_simps dest: bit_imp_le_length)

lemma readMem_reg_PC: "reg_PC (snd (readMem a s)) = reg_PC s"
  by (simp add: snd_readMem)

lemma program_at_fetch: "program_at s a (b # bs) \<Longrightarrow> readMem a s = (b, s)"
  using readMem_cell[of a s] by simp

lemma program_at_next: "program_at s a (b # bs) \<Longrightarrow> program_at s (a + 1) bs"
  by simp

lemma pc_arith:
  "a + 1 + 1 = a + 2" "a + 1 + 2 = a + 3" "a + 2 + 1 = a + 3" "a + 3 - 1 = a + 2"
  "2 + a = a + 2" "3 + a = a + 3"
  for a :: "'a::len word"
  by simp_all

lemma fetch3:
  assumes "program_at s a (op # lo # hi # rest)"
  shows "readMem a s = (op, s)" "readMem (a + 1) s = (lo, s)" "readMem (a + 2) s = (hi, s)"
    and "program_at s (a + 3) rest"
proof -
  note p1 = program_at_next[OF assms]
  note p2 = program_at_next[OF p1]
  note p3 = program_at_next[OF p2]
  show "readMem a s = (op, s)" using assms by (rule program_at_fetch)
  show "readMem (a + 1) s = (lo, s)" using p1 by (rule program_at_fetch)
  show "readMem (a + 2) s = (hi, s)" using program_at_fetch[OF p2] by (simp only: pc_arith)
  show "program_at s (a + 3) rest" using p3 by (simp only: pc_arith)
qed

lemma step_ABS:
  assumes "program_at s (reg_PC s) (op # lo # hi # rest)" and "addressing ! unat op = ABS"
  shows "step s = exec (instruction ! unat op)
           ((snd (readMem (word16 lo hi) s))
              \<lparr>ope_address := word16 lo hi,
                ope_value := ucast (fst (readMem (word16 lo hi) s)),
                reg_PC := reg_PC s + 3\<rparr>)"
proof -
  note f = fetch3[OF assms(1)]
  have res: "resolve ABS (s\<lparr>reg_PC := reg_PC s + 1\<rparr>) =
      (snd (readMem (word16 lo hi) s))
              \<lparr>ope_address := word16 lo hi,
                ope_value := ucast (fst (readMem (word16 lo hi) s)),
                reg_PC := reg_PC s + 3\<rparr>"
    using f(2) f(3)
    by (simp add: Let_def split_beta readMem_PC readMem_ope_address succ_cast word16_cast
          readMem_reg_PC pc_arith)
  show ?thesis
    by (simp only: step_eq Let_def f(1) fst_conv snd_conv assms(2) res)
qed

lemma dispatch_LDA_abs: "addressing ! unat (0xAD :: uint8_t) = ABS" "instruction ! unat (0xAD :: uint8_t) = LDA"
  by (simp_all add: addressing_def instruction_def)

lemma step_LDA_abs:
  assumes "program_at s (reg_PC s) (0xAD # lo # hi # rest)"
  shows "reg_A (step s) = fst (readMem (word16 lo hi) s)"
    and "reg_SR (step s) = flag_set SIGN (bit (fst (readMem (word16 lo hi) s)) 7)
                             (flag_set ZERO (fst (readMem (word16 lo hi) s) = 0) (reg_SR s))"
    and "key (step s) = key (snd (readMem (word16 lo hi) s))"
    and "ram (step s) = ram s" and "rom (step s) = rom s"
    and "reg_PC (step s) = reg_PC s + 3"
  unfolding step_ABS[OF assms dispatch_LDA_abs(1)] dispatch_LDA_abs(2)
  by (simp_all add: Let_def setSZ_eq ucast_8_16_8 snd_readMem)

lemma readMem_KBD: "readMem 0xC000 s = (key s, s)"
  by (simp add: readMem_def)

lemma readMem_KBDSTRB: "readMem 0xC010 s = (key s AND 0x7F, s\<lparr>key := key s AND 0x7F\<rparr>)"
  by (simp add: readMem_def Let_def)

text \<open>
  Claim C4.  With the keyboard latch at \<open>0xC1\<close> and the program
  \<^verbatim>\<open>LDA $C000; LDA $C010; LDA $C000\<close> at PC, in RAM or ROM: the first load gives
  \<open>A = 0xC1\<close> with N set and leaves the latch at \<open>0xC1\<close>; the second clears bit 7 of the
  latch and gives \<open>A = 0x41\<close> with N clear; the third gives \<open>A = 0x41\<close>.
\<close>

theorem keyboard_latch_scenario:
  assumes k: "key s = 0xC1"
    and p: "program_at s (reg_PC s) [0xAD, 0x00, 0xC0, 0xAD, 0x10, 0xC0, 0xAD, 0x00, 0xC0]"
  shows "reg_A (step s) = 0xC1 \<and> reg_SR (step s) AND SIGN \<noteq> 0 \<and> key (step s) = 0xC1
     \<and> reg_A (step (step s)) = 0x41 \<and> reg_SR (step (step s)) AND SIGN = 0
     \<and> key (step (step s)) = 0x41
     \<and> reg_A (step (step (step s))) = 0x41 \<and> key (step (step (step s))) = 0x41"
proof -
  have a0: "word16 0x00 0xC0 = 0xC000" and a1: "word16 0x10 0xC0 = 0xC010"
    by (simp_all add: word16_def)
  note s1 = step_LDA_abs[OF p, unfolded a0 readMem_KBD fst_conv snd_conv k]
  have p1: "program_at (step s) (reg_PC (step s)) [0xAD, 0x10, 0xC0, 0xAD, 0x00, 0xC0]"
    unfolding s1(6) by (rule program_at_cong[OF s1(4) s1(5), THEN iffD2]) (rule fetch3(4)[OF p])
  note s2 = step_LDA_abs[OF p1, unfolded a1 readMem_KBDSTRB fst_conv snd_conv s1(3)]
  have p2: "program_at (step (step s)) (reg_PC (step (step s))) [0xAD, 0x00, 0xC0]"
    unfolding s2(6) by (rule program_at_cong[OF s2(4) s2(5), THEN iffD2]) (rule fetch3(4)[OF p1])
  note s3 = step_LDA_abs[OF p2, unfolded a0 readMem_KBD fst_conv snd_conv]
  have k2: "key (step (step s)) = 0x41" using s2(3) by simp
  show ?thesis
    using s1(1) s1(2) s1(3) s2(1) s2(2) k2 s3(1) s3(3)
    by (simp add: flag_set_def flag_tests bit_simps)
qed

lemma word16_ne_strobe: "lo \<noteq> 0x10 \<Longrightarrow> word16 lo hi \<noteq> 0xC010"
proof
  assume n: "lo \<noteq> 0x10" and e: "word16 lo hi = 0xC010"
  have "(ucast (word16 lo hi) :: uint8_t) = ucast (0xC010 :: uint16_t)" by (simp only: e)
  then have "lo = 0x10" by (simp add: word16_lo)
  with n show False by simp
qed

lemma dispatch_JMP_ind:
  "addressing ! unat (0x6C :: uint8_t) = IND" "instruction ! unat (0x6C :: uint8_t) = JMP"
  by (simp_all add: addressing_def instruction_def)

lemma step_JMP_ind:
  assumes "program_at s (reg_PC s) (0x6C # lo # hi # rest)"
    and "lo \<noteq> 0x10" and "lo + 1 \<noteq> 0x10"
  shows "reg_PC (step s) = word16 (fst (readMem (word16 lo hi) s))
                                  (fst (readMem (word16 (lo + 1) hi) s))"
proof -
  note f = fetch3[OF assms(1)]
  have n1: "snd (readMem (word16 lo hi) t) = t" for t
    using word16_ne_strobe[OF assms(2), of hi] by (simp add: snd_readMem)
  have n2: "snd (readMem (word16 (lo + 1) hi) t) = t" for t
    using word16_ne_strobe[OF assms(3), of hi] by (simp add: snd_readMem)
  have res: "ope_address (resolve IND (s\<lparr>reg_PC := reg_PC s + 1\<rparr>)) =
      word16 (fst (readMem (word16 lo hi) s)) (fst (readMem (word16 (lo + 1) hi) s))"
    using f(2) f(3)
    apply (simp add: Let_def split_beta readMem_PC readMem_ope_address succ_cast word16_cast
          readMem_reg_PC pc_arith IND_vector2)
    apply (simp add: n1 n2)
    done
  show ?thesis
    unfolding step_eq Let_def f(1) fst_conv snd_conv dispatch_JMP_ind
    by (simp add: res del: resolve.simps)
qed

text \<open>
  Claim C6.  For every page \<open>hi\<close>, \<^verbatim>\<open>JMP ($hiFF)\<close> sets PC to the 16-bit value whose low byte
  is read at \<open>$hiFF\<close> and whose high byte is read at \<open>$hi00\<close>, in the same page; with
  \<open>0x80\<close> at \<open>$30FF\<close> and \<open>0x50\<close> at \<open>$3000\<close>, \<^verbatim>\<open>JMP ($30FF)\<close> gives \<open>PC = 0x5080\<close>.
\<close>

theorem JMP_indirect_page_wrap:
  assumes "program_at s (reg_PC s) [0x6C, 0xFF, hi]"
  shows "reg_PC (step s) = word16 (fst (readMem (word16 0xFF hi) s))
                                  (fst (readMem (word16 0x00 hi) s))
     \<and> (hi = 0x30 \<and> ram s 0x30FF = 0x80 \<and> ram s 0x3000 = 0x50 \<longrightarrow> reg_PC (step s) = 0x5080)"
proof -
  have pc: "reg_PC (step s) = word16 (fst (readMem (word16 0xFF hi) s))
                                  (fst (readMem (word16 0x00 hi) s))"
  proof -
    have z: "(0xFF :: uint8_t) + 1 = 0" by simp
    have "reg_PC (step s) = word16 (fst (readMem (word16 0xFF hi) s))
                                   (fst (readMem (word16 (0xFF + 1) hi) s))"
      by (rule step_JMP_ind[OF assms]) simp_all
    then show ?thesis unfolding z .
  qed
  have "reg_PC (step s) = 0x5080" if "hi = 0x30" "ram s 0x30FF = 0x80" "ram s 0x3000 = 0x50"
    unfolding pc using that by (simp add: word16_def readMem_def)
  with pc show ?thesis by blast
qed

theorem JMP_indirect_page_wrap_witness:
  "program_at jmp_demo (reg_PC jmp_demo) [0x6C, 0xFF, 0x30]
   \<and> ram jmp_demo 0x30FF = 0x80 \<and> ram jmp_demo 0x3000 = 0x50 \<and> ram jmp_demo 0x3100 = 0x60
   \<and> reg_PC (step jmp_demo) = 0x5080"
proof -
  have p: "program_at jmp_demo (reg_PC jmp_demo) [0x6C, 0xFF, 0x30]"
    by (simp add: jmp_demo_def power_on_def io_window_def cell_def)
  have r: "ram jmp_demo 0x30FF = 0x80 \<and> ram jmp_demo 0x3000 = 0x50 \<and> ram jmp_demo 0x3100 = 0x60"
    by (simp add: jmp_demo_def power_on_def)
  from JMP_indirect_page_wrap[OF p] r have "reg_PC (step jmp_demo) = 0x5080" by blast
  with p r show ?thesis by blast
qed

lemma dispatch_JSR:
  "addressing ! unat (0x20 :: uint8_t) = ABS" "instruction ! unat (0x20 :: uint8_t) = JSR"
  by (simp_all add: addressing_def instruction_def)

lemma dispatch_RTS:
  "addressing ! unat (0x60 :: uint8_t) = IMP" "instruction ! unat (0x60 :: uint8_t) = RTS"
  by (simp_all add: addressing_def instruction_def)

lemma step_JSR:
  assumes "program_at s (reg_PC s) (0x20 # lo # hi # rest)"
  shows "reg_PC (step s) = word16 lo hi"
    and "reg_SP (step s) = reg_SP s - 2"
    and "ram (step s) = (ram s)(stack_addr (reg_SP s) := ucast (drop_bit 8 (reg_PC s + 2)),
                               stack_addr (reg_SP s - 1) := ucast (reg_PC s + 2))"
  unfolding step_ABS[OF assms dispatch_JSR(1)] dispatch_JSR(2)
  by (simp_all add: Let_def push_eq hi_byte_cast lo_byte_cast snd_readMem pc_arith)

lemma step_RTS:
  assumes "fst (readMem (reg_PC t) t) = 0x60"
  shows "reg_PC (step t) = word16 (ram t (stack_addr (reg_SP t + 1)))
                                  (ram t (stack_addr (reg_SP t + 2))) + 1"
    and "reg_SP (step t) = reg_SP t + 2"
  unfolding step_eq Let_def assms dispatch_RTS
  by (simp_all add: Let_def pull_eq word16_succ_cast snd_readMem pc_arith)

text \<open>
  Claim C8.  \<^verbatim>\<open>JSR addr\<close>, three bytes at PC, pushes the address of its last byte
  (\<open>PC + 2\<close>, the PC after the operand minus one), high byte at the stack slot \<open>SP\<close> and low
  byte at \<open>SP - 1\<close>, and sets PC to \<open>addr\<close>.  An RTS executed in any later state \<open>t\<close> in
  which SP and these two stack slots are what JSR left pulls the low then the high byte
  and sets PC to the pulled address plus one: the byte after the JSR instruction.  SP is
  then what it was before the JSR.
\<close>

theorem JSR_RTS_round_trip:
  assumes jsr: "program_at s (reg_PC s) [0x20, lo, hi]"
    and sp: "reg_SP t = reg_SP (step s)"
    and hi_slot: "ram t (stack_addr (reg_SP s)) = ram (step s) (stack_addr (reg_SP s))"
    and lo_slot: "ram t (stack_addr (reg_SP s - 1)) = ram (step s) (stack_addr (reg_SP s - 1))"
    and rts: "fst (readMem (reg_PC t) t) = 0x60"
  shows "reg_PC (step s) = word16 lo hi
     \<and> reg_SP (step s) = reg_SP s - 2
     \<and> ram (step s) (stack_addr (reg_SP s)) = ucast (drop_bit 8 (reg_PC s + 2))
     \<and> ram (step s) (stack_addr (reg_SP s - 1)) = ucast (reg_PC s + 2)
     \<and> reg_PC (step t) = reg_PC s + 3
     \<and> reg_SP (step t) = reg_SP s"
proof -
  note j = step_JSR[OF jsr]
  have h: "ram (step s) (stack_addr (reg_SP s)) = ucast (drop_bit 8 (reg_PC s + 2))"
    unfolding j(3) by (simp add: stack_addr_inj)
  have l: "ram (step s) (stack_addr (reg_SP s - 1)) = ucast (reg_PC s + 2)"
    unfolding j(3) by simp
  have sp1: "reg_SP t + 1 = reg_SP s - 1" and sp2: "reg_SP t + 2 = reg_SP s"
    unfolding sp j(2) by simp_all
  note r = step_RTS[OF rts, unfolded sp1 sp2 hi_slot lo_slot h l word16_split]
  have "reg_PC (step t) = reg_PC s + 3"
    using r(1) by (simp only: pc_arith)
  with j(1) j(2) h l r(2) show ?thesis by blast
qed

theorem JSR_RTS_round_trip_witness:
  "program_at jsr_demo (reg_PC jsr_demo) [0x20, 0x10, 0x03]
   \<and> fst (readMem (reg_PC (step jsr_demo)) (step jsr_demo)) = 0x60
   \<and> reg_PC (step jsr_demo) = 0x0310
   \<and> reg_SP (step jsr_demo) = 0xFD
   \<and> ram (step jsr_demo) 0x01FF = 0x02 \<and> ram (step jsr_demo) 0x01FE = 0x02
   \<and> reg_PC (step (step jsr_demo)) = 0x0203
   \<and> reg_SP (step (step jsr_demo)) = 0xFF"
proof -
  have p: "program_at jsr_demo (reg_PC jsr_demo) [0x20, 0x10, 0x03]"
    by (simp add: jsr_demo_def power_on_def io_window_def cell_def)
  note j = step_JSR[OF p]
  have a: "word16 0x10 0x03 = 0x0310" by (simp add: word16_def)
  have rts: "fst (readMem (reg_PC (step jsr_demo)) (step jsr_demo)) = 0x60"
    unfolding j(1) a by (simp add: readMem_def j(3) stack_addr_def) (simp add: jsr_demo_def power_on_def)
  have f: "reg_PC jsr_demo = 0x0200" "reg_SP jsr_demo = 0xFF"
    by (simp_all add: jsr_demo_def power_on_def)
  show ?thesis
    using p rts JSR_RTS_round_trip[OF p refl refl refl rts]
    by (simp add: a f stack_addr_def)
qed

theorem keyboard_latch_scenario_witness:
  "key kbd_demo = 0xC1
   \<and> program_at kbd_demo (reg_PC kbd_demo)
         [0xAD, 0x00, 0xC0, 0xAD, 0x10, 0xC0, 0xAD, 0x00, 0xC0]
   \<and> reg_A (step kbd_demo) = 0xC1 \<and> key (step kbd_demo) = 0xC1
   \<and> reg_A (step (step kbd_demo)) = 0x41 \<and> key (step (step kbd_demo)) = 0x41
   \<and> reg_A (step (step (step kbd_demo))) = 0x41"
proof -
  have k: "key kbd_demo = 0xC1"
    by (simp add: kbd_demo_def power_on_def)
  have p: "program_at kbd_demo (reg_PC kbd_demo)
             [0xAD, 0x00, 0xC0, 0xAD, 0x10, 0xC0, 0xAD, 0x00, 0xC0]"
    by (simp add: kbd_demo_def power_on_def io_window_def cell_def)
  show ?thesis
    using k p keyboard_latch_scenario[OF k p] by blast
qed

end
